theory Spec2Isabelle
  imports Main
begin

section \<open>The ThingsBoard installer script, as a state-passing program\<close>

text \<open>
  The script \<^verbatim>\<open>docker/thingsboard_installer.py\<close> is a sequence of calls to external
  tools. Each of its functions is embedded as a function from the world before the call
  to a result and the world after it. A result is \<open>Inr v\<close> when the Python function
  returns \<open>v\<close>, and \<open>Inl e\<close> when it leaves by the exception \<open>e\<close>.

  What the script cannot decide itself is a parameter of the model, the \<open>host\<close>: what each
  external command returns, writes to its standard error and reads from the standard
  input, the memory and disk figures of \<^verbatim>\<open>psutil\<close>, the login name, and the behaviour of
  the mail server. The outcome of a command may depend on everything the run has done so
  far and on the input that is left, so the host sees both.

  Conventions of the model:
  \<^item> text is a \<open>string\<close>; the standard error that a command leaves is either text or bytes
    on which \<^verbatim>\<open>decode()\<close> raises;
  \<^item> the standard input is the list of the lines still to be read, each without its line
    terminator, as \<^verbatim>\<open>input()\<close> returns them; a command started by the script inherits it
    and may read lines from it;
  \<^item> the file system is a map from paths to contents, changed by the script only;
  \<^item> failures of the operating system itself (no memory, no permission to write the
    working directory) are outside the model.

  The functions of the installation pipeline are embedded, \<open>full_installation\<close> and all it
  calls, and \<open>configure_environment\<close>, which it does not call. The menu loop, which
  dispatches to them and has no exception handler of its own, is not.
\<close>

subsection \<open>Exceptions, events, world and host\<close>

text \<open>
  \<open>SystemExit n\<close> is what \<^verbatim>\<open>exit(n)\<close> raises. Every other exception of the model is an
  instance of \<^verbatim>\<open>Exception\<close>, kept as its class name and the text of \<^verbatim>\<open>str(e)\<close>.
\<close>

datatype exn =
    SystemExit int
  | Exception string string

datatype level = INFO | WARNING | ERROR

text \<open>The \<^verbatim>\<open>MIMEText\<close> message: body and the three headers the script sets.\<close>

record mime_text =
  payload :: string
  subject :: string
  sender :: string
  recipient :: string

datatype smtp_step =
    Connect string nat
  | Starttls
  | Login string string
  | Sendmail string "string list" mime_text
  | Quit

text \<open>
  Everything the script does to the outside, in the order it does it: a log record, a
  prompt written by \<^verbatim>\<open>input\<close>, the line that \<^verbatim>\<open>input\<close> returns, a command handed to
  \<^verbatim>\<open>subprocess.run\<close> with \<^verbatim>\<open>check=True\<close> (\<open>Run\<close>) or without (\<open>Probe\<close>), a rename, a file
  written, a step of the mail session.
\<close>

datatype event =
    Log level string
  | Prompt string
  | Input string
  | Run string
  | Probe string
  | Rename string string
  | Write string string
  | Smtp smtp_step

record world =
  files :: "string \<rightharpoonup> string"
  stdin :: "string list"
  trace :: "event list"

text \<open>
  The standard error captured from a command: \<open>Text s\<close> when \<^verbatim>\<open>decode()\<close> gives the text
  \<open>s\<close>, \<open>Undecodable m\<close> when the bytes are not UTF-8 and \<^verbatim>\<open>decode()\<close> raises
  \<^verbatim>\<open>UnicodeDecodeError\<close> with the text \<open>m\<close>.
\<close>

datatype captured = Text string | Undecodable string

text \<open>
  \<open>shell h t inp c\<close> is what command \<open>c\<close> does when it is started after the trace \<open>t\<close> with
  the lines \<open>inp\<close> left on the standard input: its return code, its standard error, and the
  number of lines it reads from the standard input. \<open>smtp h t s\<close> is \<open>None\<close> when step \<open>s\<close>
  of the mail session succeeds after \<open>t\<close>, and \<open>Some m\<close> when it raises an exception whose
  text is \<open>m\<close>.
\<close>

record host =
  shell :: "event list \<Rightarrow> string list \<Rightarrow> string \<Rightarrow> int \<times> captured \<times> nat"
  mem_total :: nat
  disk_free :: nat
  user :: string
  smtp :: "event list \<Rightarrow> smtp_step \<Rightarrow> string option"

type_synonym 'a prog = "world \<Rightarrow> (exn + 'a) \<times> world"

text \<open>One statement after another: an exception of the first skips the second.\<close>

definition bnd :: "'a prog \<Rightarrow> ('a \<Rightarrow> 'b prog) \<Rightarrow> 'b prog" where
  "bnd m k w = (case m w of (Inl e, w') \<Rightarrow> (Inl e, w') | (Inr x, w') \<Rightarrow> k x w')"

definition ret :: "'a \<Rightarrow> 'a prog" where
  "ret x w = (Inr x, w)"

definition raise :: "exn \<Rightarrow> 'a prog" where
  "raise e w = (Inl e, w)"

definition emit :: "event \<Rightarrow> unit prog" where
  "emit e w = (Inr (), w\<lparr>trace := trace w @ [e]\<rparr>)"

subsection \<open>Library calls\<close>

definition logger_info :: "string \<Rightarrow> unit prog" where
  "logger_info msg = emit (Log INFO msg)"

definition logger_warning :: "string \<Rightarrow> unit prog" where
  "logger_warning msg = emit (Log WARNING msg)"

definition logger_error :: "string \<Rightarrow> unit prog" where
  "logger_error msg = emit (Log ERROR msg)"

text \<open>\<^verbatim>\<open>exit(n)\<close>\<close>

definition exit_py :: "int \<Rightarrow> 'a prog" where
  "exit_py n = raise (SystemExit n)"

text \<open>\<^verbatim>\<open>input(prompt)\<close>: writes the prompt, reads one line, raises \<^verbatim>\<open>EOFError\<close> at end of input.\<close>

definition input_py :: "string \<Rightarrow> string prog" where
  "input_py prompt =
     bnd (emit (Prompt prompt)) (\<lambda>_ w.
       case stdin w of
         [] \<Rightarrow> (Inl (Exception ''EOFError'' ''EOF when reading a line''), w)
       | l # ls \<Rightarrow> bnd (emit (Input l)) (\<lambda>_. ret l) (w\<lparr>stdin := ls\<rparr>))"

text \<open>\<^verbatim>\<open>x or d\<close> on strings: the empty string is the only false one.\<close>

definition or_py :: "string \<Rightarrow> string \<Rightarrow> string" where
  "or_py x d = (if x = [] then d else x)"

text \<open>
  \<^verbatim>\<open>str.lower()\<close> on the characters of the model: the letters \<open>A\<close> to \<open>Z\<close> go to \<open>a\<close> to \<open>z\<close>,
  every other character stays.
\<close>

definition lower_char :: "char \<Rightarrow> char" where
  "lower_char c =
     (if 65 \<le> (of_char c :: nat) \<and> (of_char c :: nat) \<le> 90
      then char_of ((of_char c :: nat) + 32) else c)"

definition lower :: "string \<Rightarrow> string" where
  "lower s = map lower_char s"

text \<open>\<^verbatim>\<open>os.path.exists\<close>, \<^verbatim>\<open>os.rename\<close> (POSIX: an existing target is replaced) and
  \<^verbatim>\<open>open(path, "w")\<close> with one \<^verbatim>\<open>write\<close>.\<close>

definition os_path_exists :: "string \<Rightarrow> world \<Rightarrow> bool" where
  "os_path_exists p w = (files w p \<noteq> None)"

definition os_rename :: "string \<Rightarrow> string \<Rightarrow> unit prog" where
  "os_rename src dst w =
     (case files w src of
        None \<Rightarrow> (Inl (Exception ''FileNotFoundError''
                  (''[Errno 2] No such file or directory: '' @ [CHR 0x27] @ src @ [CHR 0x27]
                   @ '' -> '' @ [CHR 0x27] @ dst @ [CHR 0x27])), w)
      | Some c \<Rightarrow> emit (Rename src dst) (w\<lparr>files := ((files w)(src := None))(dst \<mapsto> c)\<rparr>))"

definition write_file :: "string \<Rightarrow> string \<Rightarrow> unit prog" where
  "write_file p content w = emit (Write p content) (w\<lparr>files := (files w)(p \<mapsto> content)\<rparr>)"

text \<open>
  \<^verbatim>\<open>subprocess.run(c, shell=True, ...)\<close>, up to the completed process. A command with a NUL
  character is refused with \<^verbatim>\<open>ValueError\<close> before anything is started. Otherwise the
  command runs to its end, on the standard input of the script, and the return code and
  the captured standard error come back.
\<close>

definition subprocess_run :: "host \<Rightarrow> string \<Rightarrow> (int \<times> captured) prog" where
  "subprocess_run h c w =
     (if CHR 0x00 \<in> set c then raise (Exception ''ValueError'' ''embedded null byte'') w
      else case shell h (trace w) (stdin w) c of
             (returncode, err, n) \<Rightarrow> (Inr (returncode, err), w\<lparr>stdin := drop n (stdin w)\<rparr>))"

text \<open>Without \<^verbatim>\<open>check\<close>: the return code is the result.\<close>

definition subprocess_returncode :: "host \<Rightarrow> string \<Rightarrow> int prog" where
  "subprocess_returncode h c =
     bnd (emit (Probe c)) (\<lambda>_.
     bnd (subprocess_run h c) (\<lambda>(returncode, err). ret returncode))"

text \<open>\<^verbatim>\<open>e.stderr.decode()\<close>\<close>

definition decode :: "captured \<Rightarrow> string prog" where
  "decode err = (case err of
       Text s \<Rightarrow> ret s
     | Undecodable m \<Rightarrow> raise (Exception ''UnicodeDecodeError'' m))"

text \<open>
  Decimal text of a natural number, and the text of \<^verbatim>\<open>f"{n / (1024 ** 3):.2f}"\<close>: the
  quotient rounded to two decimals, ties to even. The script prints it only for values
  below ten GiB, where the floating-point quotient is exact.
\<close>

fun digits :: "nat \<Rightarrow> string" where
  "digits n = (if n < 10 then [''0123456789'' ! n]
               else digits (n div 10) @ [''0123456789'' ! (n mod 10)])"

declare digits.simps [simp del]

definition gib_2f :: "nat \<Rightarrow> string" where
  "gib_2f n =
     (let s = n * 100;
          q = s div 1024 ^ 3;
          r = s mod 1024 ^ 3;
          c = (if 2 * r > 1024 ^ 3 \<or> (2 * r = 1024 ^ 3 \<and> odd q) then q + 1 else q)
      in digits (c div 100) @ ''.'' @ digits (c mod 100 div 10) @ digits (c mod 10))"

subsection \<open>The functions of the script\<close>

text \<open>
  With \<^verbatim>\<open>check=True\<close> a return code other than 0 raises \<^verbatim>\<open>CalledProcessError\<close>, which the
  handler catches; \<^verbatim>\<open>ValueError\<close> is not caught, and neither is what the handler raises.
\<close>

definition run_command :: "host \<Rightarrow> string \<Rightarrow> string \<Rightarrow> unit prog" where
  "run_command h command description =
     bnd (logger_info description) (\<lambda>_.
     bnd (emit (Run command)) (\<lambda>_.
     bnd (subprocess_run h command) (\<lambda>(returncode, err).
       if returncode = 0 then ret ()
       else bnd (logger_error (''Failed to execute: '' @ command)) (\<lambda>_.
            bnd (decode err) (\<lambda>stderr.
            bnd (logger_error stderr) (\<lambda>_.
            exit_py 1))))))"

definition pre_install_check :: "host \<Rightarrow> unit prog" where
  "pre_install_check h =
     bnd (logger_info ''Performing pre-installation checks...'') (\<lambda>_.
     bnd (if mem_total h < 2 * 1024 ^ 3
          then logger_warning (''[WARNING] Available memory is '' @ gib_2f (mem_total h)
                 @ '' GB. Minimum 2GB recommended.'')
          else ret ()) (\<lambda>_.
     bnd (if disk_free h < 10 * 1024 ^ 3
          then logger_warning (''[WARNING] Available disk space is '' @ gib_2f (disk_free h)
                 @ '' GB. Minimum 10GB recommended.'')
          else ret ()) (\<lambda>_.
     bnd (subprocess_returncode h ''docker --version'') (\<lambda>returncode.
       if returncode = 0 then logger_info ''[INFO] Docker is already installed.''
       else logger_info ''[INFO] Docker is not installed. It will be installed.''))))"

definition update_and_upgrade_system :: "host \<Rightarrow> unit prog" where
  "update_and_upgrade_system h =
     run_command h ''sudo apt update && sudo apt upgrade -y'' ''Updating and upgrading Ubuntu''"

definition install_docker :: "host \<Rightarrow> unit prog" where
  "install_docker h =
     bnd (run_command h ''sudo apt install -y docker.io'' ''Installing Docker'') (\<lambda>_.
     bnd (run_command h ''sudo systemctl start docker && sudo systemctl enable docker''
            ''Starting and enabling Docker service'') (\<lambda>_.
     bnd (run_command h ''sudo groupadd docker || true''
            ''Creating Docker group (if not exists)'') (\<lambda>_.
     run_command h (''sudo usermod -aG docker '' @ user h)
            ''Adding current user to Docker group'')))"

definition compose_path :: string where
  "compose_path = ''docker-compose.yml''"

definition backup_file :: string where
  "backup_file = ''docker-compose.yml.bak''"

definition backup_existing_compose_file :: "unit prog" where
  "backup_existing_compose_file w =
     (if os_path_exists compose_path w
      then bnd (os_rename compose_path backup_file) (\<lambda>_.
           logger_info (''Existing docker-compose.yml backed up as '' @ backup_file)) w
      else ret () w)"

definition get_user_config :: "(string \<times> string \<times> string) prog" where
  "get_user_config =
     bnd (input_py ''[PROMPT] Enter HTTP port for ThingsBoard (default: 8080): '') (\<lambda>a.
     bnd (input_py ''[PROMPT] Enter MQTT port (default: 1883): '') (\<lambda>b.
     bnd (input_py ''[PROMPT] Enter CoAP port (default: 5683): '') (\<lambda>c.
     ret (or_py a ''8080'', or_py b ''1883'', or_py c ''5683''))))"

definition configure_environment :: "(string \<rightharpoonup> string) prog" where
  "configure_environment =
     bnd (input_py ''[PROMPT] Choose environment [dev/prod] (default: dev): '') (\<lambda>s.
       let env = or_py (lower s) ''dev'' in
       if env = ''prod''
       then bnd (logger_info ''Production environment selected. Using optimized resource limits.'')
              (\<lambda>_. ret [''JAVA_OPTS'' \<mapsto> ''-Xms512m -Xmx1024m'', ''DB_POOL_SIZE'' \<mapsto> ''50''])
       else bnd (logger_info ''Development environment selected. Using default settings.'')
              (\<lambda>_. ret [''JAVA_OPTS'' \<mapsto> ''-Xms256m -Xmx512m'', ''DB_POOL_SIZE'' \<mapsto> ''20'']))"

text \<open>The f-string of \<^verbatim>\<open>install_thingsboard_docker_compose\<close>, one piece for each of its lines.\<close>

definition compose_file_content :: "string \<Rightarrow> string \<Rightarrow> string \<Rightarrow> string" where
  \<open>compose_file_content http_port mqtt_port coap_port =
     ''\<newline>'' @
     ''version: '3.5'\<newline>'' @
     ''services:\<newline>'' @
     ''  tb:\<newline>'' @
     ''    image: thingsboard/tb-postgres:latest\<newline>'' @
     ''    container_name: tb\<newline>'' @
     ''    ports:\<newline>'' @
     ''      - "'' @ http_port @ '':8080"\<newline>'' @
     ''      - "'' @ mqtt_port @ '':1883"\<newline>'' @
     ''      - "'' @ coap_port @ '':5683/udp"\<newline>'' @
     ''    environment:\<newline>'' @
     ''      TB_QUEUE_TYPE: kafka\<newline>'' @
     ''      SPRING_DATASOURCE_URL: jdbc:postgresql://postgres:5432/thingsboard\<newline>'' @
     ''      SPRING_DATASOURCE_USERNAME: tb_user\<newline>'' @
     ''      SPRING_DATASOURCE_PASSWORD: tb_password\<newline>'' @
     ''    depends_on:\<newline>'' @
     ''      - postgres\<newline>'' @
     ''\<newline>'' @
     ''  postgres:\<newline>'' @
     ''    image: postgres:12\<newline>'' @
     ''    container_name: postgres\<newline>'' @
     ''    environment:\<newline>'' @
     ''      POSTGRES_DB: thingsboard\<newline>'' @
     ''      POSTGRES_USER: tb_user\<newline>'' @
     ''      POSTGRES_PASSWORD: tb_password\<newline>'' @
     ''    volumes:\<newline>'' @
     ''      - ./data/db:/var/lib/postgresql/data\<newline>''\<close>

definition install_thingsboard_docker_compose :: "host \<Rightarrow> string \<Rightarrow> string \<Rightarrow> string \<Rightarrow> unit prog" where
  "install_thingsboard_docker_compose h http_port mqtt_port coap_port =
     bnd (write_file compose_path (compose_file_content http_port mqtt_port coap_port)) (\<lambda>_.
     run_command h ''docker-compose up -d'' ''Deploying ThingsBoard with Docker Compose'')"

definition configure_firewall :: "host \<Rightarrow> string \<Rightarrow> string \<Rightarrow> string \<Rightarrow> unit prog" where
  "configure_firewall h http_port mqtt_port coap_port =
     bnd (run_command h (''sudo ufw allow '' @ http_port) (''Allowing HTTP port '' @ http_port)) (\<lambda>_.
     bnd (run_command h (''sudo ufw allow '' @ mqtt_port) (''Allowing MQTT port '' @ mqtt_port)) (\<lambda>_.
     bnd (run_command h (''sudo ufw allow '' @ coap_port) (''Allowing CoAP port '' @ coap_port)) (\<lambda>_.
     run_command h ''sudo ufw enable'' ''Enabling the firewall'')))"

definition verify_installation :: "host \<Rightarrow> unit prog" where
  "verify_installation h =
     bnd (run_command h ''docker-compose ps'' ''Checking running containers'') (\<lambda>_.
     logger_info ''ThingsBoard should now be accessible via http://<your-ip>:8080'')"

text \<open>
  One call of the mail session: the attempt is recorded, the host says whether it raises.
  The class of the exception is not tracked: it is some subclass of \<^verbatim>\<open>Exception\<close>.
\<close>

definition smtp_call :: "host \<Rightarrow> smtp_step \<Rightarrow> unit prog" where
  "smtp_call h s w =
     (case smtp h (trace w) s of
        None \<Rightarrow> emit (Smtp s) w
      | Some m \<Rightarrow> bnd (emit (Smtp s)) (\<lambda>_. raise (Exception ''Exception'' m)) w)"

text \<open>
  The body of a \<^verbatim>\<open>with\<close> block, entered, and its \<^verbatim>\<open>__exit__\<close>: the exit call runs whether the
  body raised or not, and an exception of the exit call replaces the one of the body.
\<close>

definition with_exit :: "unit prog \<Rightarrow> 'a prog \<Rightarrow> 'a prog" where
  "with_exit exit_call body w =
     (case body w of
        (r, w1) \<Rightarrow>
          (case exit_call w1 of
             (Inl e, w2) \<Rightarrow> (Inl e, w2)
           | (Inr _, w2) \<Rightarrow> (r, w2)))"

text \<open>
  The \<^verbatim>\<open>with smtplib.SMTP(...) as server\<close> block. The constructor connects; when it raises,
  the block is not entered. \<^verbatim>\<open>__exit__\<close> sends \<^verbatim>\<open>QUIT\<close>.
\<close>

definition smtp_session :: "host \<Rightarrow> mime_text \<Rightarrow> unit prog" where
  "smtp_session h msg =
     bnd (smtp_call h (Connect ''smtp.example.com'' 587)) (\<lambda>_.
       with_exit (smtp_call h Quit)
         (bnd (smtp_call h Starttls) (\<lambda>_.
          bnd (smtp_call h (Login ''user'' ''password'')) (\<lambda>_.
          smtp_call h (Sendmail (sender msg) [recipient msg] msg)))))"

text \<open>\<^verbatim>\<open>try: ... except Exception as e: handler\<close>: \<^verbatim>\<open>SystemExit\<close> is not caught.\<close>

definition try_except_Exception :: "'a prog \<Rightarrow> (string \<Rightarrow> 'a prog) \<Rightarrow> 'a prog" where
  "try_except_Exception body handler w =
     (case body w of
        (Inl (Exception cls m), w') \<Rightarrow> handler m w'
      | (Inl (SystemExit n), w') \<Rightarrow> (Inl (SystemExit n), w')
      | (Inr x, w') \<Rightarrow> (Inr x, w'))"

text \<open>
  Building the message sets a body and three headers and raises nothing. Rendering it with
  \<^verbatim>\<open>as_string\<close> is part of the \<^verbatim>\<open>sendmail\<close> step, inside the \<^verbatim>\<open>try\<close> block, as is the
  log record of success.
\<close>

definition send_notification :: "host \<Rightarrow> string \<Rightarrow> bool \<Rightarrow> unit prog" where
  "send_notification h email success =
     (let status = (if success then ''SUCCESS'' else ''FAILURE'');
          msg = \<lparr>payload = ''The ThingsBoard installation completed with status: '' @ status,
                 subject = ''ThingsBoard Installation Status'',
                 sender = ''noreply@example.com'',
                 recipient = email\<rparr>
      in try_except_Exception
           (bnd (smtp_session h msg) (\<lambda>_. logger_info ''[INFO] Notification email sent.''))
           (\<lambda>e. logger_error (''[ERROR] Failed to send notification email: '' @ e)))"

definition full_installation :: "host \<Rightarrow> unit prog" where
  "full_installation h =
     bnd (pre_install_check h) (\<lambda>_.
     bnd (update_and_upgrade_system h) (\<lambda>_.
     bnd (install_docker h) (\<lambda>_.
     bnd backup_existing_compose_file (\<lambda>_.
     bnd get_user_config (\<lambda>(http_port, mqtt_port, coap_port).
     bnd (install_thingsboard_docker_compose h http_port mqtt_port coap_port) (\<lambda>_.
     bnd (configure_firewall h http_port mqtt_port coap_port) (\<lambda>_.
     bnd (verify_installation h) (\<lambda>_.
     send_notification h ''admin@example.com'' True))))))))"


subsection \<open>Observations on traces and texts\<close>

text \<open>The commands handed to \<open>run_command\<close>, in the order of their execution.\<close>

fun commands_run :: "event list \<Rightarrow> string list" where
  "commands_run [] = []"
| "commands_run (Run c # es) = c # commands_run es"
| "commands_run (e # es) = commands_run es"

text \<open>The events that a program adds to the trace when it starts in world \<open>w\<close>.\<close>

definition new_events :: "'a prog \<Rightarrow> world \<Rightarrow> event list" where
  "new_events p w = drop (length (trace w)) (trace (snd (p w)))"

text \<open>
  The prompts that the script writes, the lines that \<^verbatim>\<open>input\<close> returns to it, and the
  files that it writes, each in the order of the events.
\<close>

fun prompts_of :: "event list \<Rightarrow> string list" where
  "prompts_of [] = []"
| "prompts_of (Prompt p # es) = p # prompts_of es"
| "prompts_of (e # es) = prompts_of es"

fun inputs_of :: "event list \<Rightarrow> string list" where
  "inputs_of [] = []"
| "inputs_of (Input l # es) = l # inputs_of es"
| "inputs_of (e # es) = inputs_of es"

fun writes_of :: "event list \<Rightarrow> (string \<times> string) list" where
  "writes_of [] = []"
| "writes_of (Write p c # es) = (p, c) # writes_of es"
| "writes_of (e # es) = writes_of es"

text \<open>
  \<open>outcomes h t inp es\<close> replays the events \<open>es\<close>, which follow the trace \<open>t\<close> when the lines
  \<open>inp\<close> are left on the standard input, and says of each command handed to \<open>run_command\<close>
  whether it succeeded on host \<open>h\<close>: it was started and returned the code 0.
\<close>

fun outcomes :: "host \<Rightarrow> event list \<Rightarrow> string list \<Rightarrow> event list \<Rightarrow> bool list" where
  "outcomes h t inp [] = []"
| "outcomes h t inp (Run c # es) =
     (if CHR 0x00 \<in> set c then False # outcomes h (t @ [Run c]) inp es
      else (fst (shell h (t @ [Run c]) inp c) = 0)
             # outcomes h (t @ [Run c]) (drop (snd (snd (shell h (t @ [Run c]) inp c))) inp) es)"
| "outcomes h t inp (Probe c # es) =
     (if CHR 0x00 \<in> set c then outcomes h (t @ [Probe c]) inp es
      else outcomes h (t @ [Probe c]) (drop (snd (snd (shell h (t @ [Probe c]) inp c))) inp) es)"
| "outcomes h t inp (Input l # es) = outcomes h (t @ [Input l]) (drop 1 inp) es"
| "outcomes h t inp (e # es) = outcomes h (t @ [e]) inp es"

text \<open>The lines of a text, as \<^verbatim>\<open>text.split("\n")\<close> gives them.\<close>

definition newline_free :: "string \<Rightarrow> bool" where
  "newline_free s = (CHR ''\<newline>'' \<notin> set s)"

fun split_acc :: "string \<Rightarrow> string \<Rightarrow> string list" where
  "split_acc cur [] = [rev cur]"
| "split_acc cur (c # cs) =
     (if c = CHR ''\<newline>'' then rev cur # split_acc [] cs else split_acc (c # cur) cs)"

definition lines_of :: "string \<Rightarrow> string list" where
  "lines_of s = split_acc [] s"

text \<open>
  The port entries of a descriptor, wherever they stand in the text. A line whose first
  characters after the indentation are \<^verbatim>\<open>ports:\<close> is a ports key. What follows the key on
  its line, if anything, is one entry (the inline form). Otherwise the entries are the
  list items on the lines below, up to the first line that is neither an item nor blank
  nor a comment. An entry is the text of the item, without the item marker.
\<close>

definition strip_left :: "string \<Rightarrow> string" where
  "strip_left l = dropWhile (\<lambda>c. c = CHR '' '') l"

definition is_item :: "string \<Rightarrow> bool" where
  "is_item l = (take 2 (strip_left l) = ''- '')"

definition is_blank_or_comment :: "string \<Rightarrow> bool" where
  "is_blank_or_comment l = (strip_left l = [] \<or> take 1 (strip_left l) = ''#'')"

fun block_items :: "string list \<Rightarrow> string list" where
  "block_items [] = []"
| "block_items (l # ls) =
     (if is_item l then strip_left (drop 2 (strip_left l)) # block_items ls
      else if is_blank_or_comment l then block_items ls
      else [])"

fun port_entries :: "string list \<Rightarrow> string list" where
  "port_entries [] = []"
| "port_entries (l # ls) =
     (if take 6 (strip_left l) = ''ports:''
      then (if strip_left (drop 6 (strip_left l)) = [] then block_items ls
            else [strip_left (drop 6 (strip_left l))]) @ port_entries ls
      else port_entries ls)"

definition port_mappings :: "string \<Rightarrow> string list" where
  "port_mappings text = port_entries (lines_of text)"

text \<open>
  What a port entry says. \<open>scalar_of\<close> reads a double-quoted scalar without escapes: the
  text between the opening quote and the next quote, provided that only blanks or a
  comment follow. \<open>mapping_of\<close> splits the scalar at its last colon into the host side and
  the container side of the mapping.
\<close>

definition scalar_of :: "string \<Rightarrow> string option" where
  "scalar_of e =
     (case e of
        [] \<Rightarrow> None
      | q # r \<Rightarrow>
          (let body = takeWhile (\<lambda>c. c \<noteq> CHR 0x22) r;
               rest = drop (length body) r
           in if q \<noteq> CHR 0x22 \<or> rest = [] \<or> CHR 0x5C \<in> set body then None
              else if strip_left (tl rest) = []
                      \<or> (take 1 (tl rest) = '' '' \<and> take 1 (strip_left (tl rest)) = ''#'')
              then Some body else None))"

definition split_last_colon :: "string \<Rightarrow> (string \<times> string) option" where
  "split_last_colon s =
     (let back = takeWhile (\<lambda>c. c \<noteq> CHR '':'') (rev s)
      in if length back = length s then None
         else Some (rev (drop (Suc (length back)) (rev s)), rev back))"

definition mapping_of :: "string \<Rightarrow> (string \<times> string) option" where
  "mapping_of e = (case scalar_of e of None \<Rightarrow> None | Some s \<Rightarrow> split_last_colon s)"

text \<open>
  Port texts that stand for themselves inside a double-quoted scalar: printable ASCII
  characters other than the double quote and the backslash.
\<close>

definition plain_port :: "string \<Rightarrow> bool" where
  "plain_port s = list_all (\<lambda>c. 32 \<le> (of_char c :: nat) \<and> (of_char c :: nat) < 127
                              \<and> c \<noteq> CHR 0x22 \<and> c \<noteq> CHR 0x5C) s"

text \<open>The sixteen spellings of \<^verbatim>\<open>prod\<close> in upper and lower case letters.\<close>

fun prod_any_case :: "string \<Rightarrow> bool" where
  "prod_any_case [c1, c2, c3, c4] =
     ((c1 = CHR ''p'' \<or> c1 = CHR ''P'') \<and> (c2 = CHR ''r'' \<or> c2 = CHR ''R'') \<and>
      (c3 = CHR ''o'' \<or> c3 = CHR ''O'') \<and> (c4 = CHR ''d'' \<or> c4 = CHR ''D''))"
| "prod_any_case s = False"

subsection \<open>Properties of programs\<close>

fun exits :: "exn \<Rightarrow> bool" where
  "exits (SystemExit n) = True"
| "exits (Exception c m) = False"

fun is_exit :: "exn + 'a \<Rightarrow> bool" where
  "is_exit (Inl e) = exits e"
| "is_exit (Inr x) = False"

text \<open>A program that runs no command, never exits the process and leaves the files alone.\<close>

definition aside :: "'a prog \<Rightarrow> bool" where
  "aside p \<longleftrightarrow> (\<forall>w. \<exists>evs. trace (snd (p w)) = trace w @ evs \<and> commands_run evs = [] \<and>
      \<not> is_exit (fst (p w)) \<and> files (snd (p w)) = files w)"

definition keeps_files :: "'a prog \<Rightarrow> bool" where
  "keeps_files p \<longleftrightarrow> (\<forall>w. files (snd (p w)) = files w)"

text \<open>A program that writes no prompt, calls \<^verbatim>\<open>input\<close> for no line and writes no file.\<close>

definition no_io :: "'a prog \<Rightarrow> bool" where
  "no_io p \<longleftrightarrow> (\<forall>w. \<exists>evs. trace (snd (p w)) = trace w @ evs \<and> prompts_of evs = [] \<and>
      inputs_of evs = [] \<and> writes_of evs = [])"

text \<open>
  The outcomes of \<open>n\<close> commands that are run one after the other until one fails:
  successes, then either one failure and nothing more, or \<open>n\<close> successes in all.
\<close>

fun ff_shape :: "nat \<Rightarrow> bool list \<Rightarrow> bool" where
  "ff_shape 0 os = (os = [])"
| "ff_shape (Suc n) [] = False"
| "ff_shape (Suc n) (b # os) = (if b then ff_shape n os else os = [])"

text \<open>
  A program that hands the commands \<open>cs\<close> to \<open>run_command\<close> in their order, stops after the
  first one that fails, and returns normally exactly when all of them succeeded.
\<close>

definition stops_at_first_failure :: "host \<Rightarrow> string list \<Rightarrow> unit prog \<Rightarrow> bool" where
  "stops_at_first_failure h cs p \<longleftrightarrow>
     (\<forall>w. \<exists>es. trace (snd (p w)) = trace w @ es \<and>
        commands_run es = take (length (outcomes h (trace w) (stdin w) es)) cs \<and>
        ff_shape (length cs) (outcomes h (trace w) (stdin w) es) \<and>
        ((fst (p w) = Inr ()) = (outcomes h (trace w) (stdin w) es = replicate (length cs) True)))"

text \<open>The steps of \<open>full_installation\<close> before and after \<open>get_user_config\<close>.\<close>

definition before_config :: "host \<Rightarrow> unit prog" where
  "before_config h =
     bnd (pre_install_check h) (\<lambda>_.
     bnd (update_and_upgrade_system h) (\<lambda>_.
     bnd (install_docker h) (\<lambda>_.
     backup_existing_compose_file)))"

definition after_config :: "host \<Rightarrow> string \<Rightarrow> string \<Rightarrow> string \<Rightarrow> unit prog" where
  "after_config h a b c =
     bnd (install_thingsboard_docker_compose h a b c) (\<lambda>_.
     bnd (configure_firewall h a b c) (\<lambda>_.
     bnd (verify_installation h) (\<lambda>_.
     send_notification h ''admin@example.com'' True)))"

subsection \<open>Some hosts and worlds\<close>

text \<open>
  A host where every command and the mail server succeed and no command reads the
  standard input; one without \<^verbatim>\<open>ufw\<close>; one where the package index cannot be refreshed
  and \<^verbatim>\<open>apt\<close> reports it in bytes that are not UTF-8; one whose mail server refuses the
  connection.
\<close>

definition host_ok :: host where
  "host_ok = \<lparr>shell = (\<lambda>t inp c. (0, Text [], 0)), mem_total = 4 * 1024 ^ 3,
              disk_free = 20 * 1024 ^ 3, user = ''ubuntu'', smtp = (\<lambda>t s. None)\<rparr>"

definition host_no_ufw :: host where
  "host_no_ufw = host_ok\<lparr>shell :=
     (\<lambda>t inp c. if take 9 c = ''sudo ufw ''
                 then (1, Text ''sudo: ufw: command not found'', 0) else (0, Text [], 0))\<rparr>"

definition latin1_error :: string where
  "latin1_error = CHR 0x27 # ''utf-8'' @ CHR 0x27
     # '' codec can't decode byte 0xe9 in position 3: invalid continuation byte''"

definition host_latin1_apt :: host where
  "host_latin1_apt = host_ok\<lparr>shell :=
     (\<lambda>t inp c. if take 15 c = ''sudo apt update''
                 then (100, Undecodable latin1_error, 0) else (0, Text [], 0))\<rparr>"

definition host_no_mail :: host where
  "host_no_mail = host_ok\<lparr>smtp :=
     (\<lambda>t s. case s of Connect a p \<Rightarrow> Some ''[Errno 111] Connection refused'' | _ \<Rightarrow> None)\<rparr>"

definition fresh_world :: "string list \<Rightarrow> world" where
  "fresh_world inp = \<lparr>files = Map.empty, stdin = inp, trace = []\<rparr>"

section \<open>Basic facts\<close>

lemmas prog_defs = bnd_def ret_def raise_def emit_def logger_info_def logger_warning_def
  logger_error_def exit_py_def

text \<open>What \<open>run_command\<close> does, case by case.\<close>

lemma run_command_unfold:
  "run_command h c d w =
    (if CHR 0x00 \<in> set c
     then (Inl (Exception ''ValueError'' ''embedded null byte''),
           w\<lparr>trace := trace w @ [Log INFO d, Run c]\<rparr>)
     else if fst (shell h (trace w @ [Log INFO d, Run c]) (stdin w) c) = 0
     then (Inr (),
           w\<lparr>trace := trace w @ [Log INFO d, Run c],
             stdin := drop (snd (snd (shell h (trace w @ [Log INFO d, Run c]) (stdin w) c)))
                        (stdin w)\<rparr>)
     else (case fst (snd (shell h (trace w @ [Log INFO d, Run c]) (stdin w) c)) of
             Text s \<Rightarrow>
               (Inl (SystemExit 1),
                w\<lparr>trace := trace w @ [Log INFO d, Run c,
                       Log ERROR (''Failed to execute: '' @ c), Log ERROR s],
                  stdin := drop (snd (snd (shell h (trace w @ [Log INFO d, Run c]) (stdin w) c)))
                             (stdin w)\<rparr>)
           | Undecodable m \<Rightarrow>
               (Inl (Exception ''UnicodeDecodeError'' m),
                w\<lparr>trace := trace w @ [Log INFO d, Run c,
                       Log ERROR (''Failed to execute: '' @ c)],
                  stdin := drop (snd (snd (shell h (trace w @ [Log INFO d, Run c]) (stdin w) c)))
                             (stdin w)\<rparr>)))"
  by (simp add: run_command_def subprocess_run_def decode_def prog_defs
           split: prod.splits captured.splits)

lemma bnd_assoc: "bnd (bnd m f) g = bnd m (\<lambda>x. bnd (f x) g)"
  by (rule ext) (simp add: bnd_def split: prod.splits sum.splits)

lemma commands_run_append: "commands_run (xs @ ys) = commands_run xs @ commands_run ys"
  by (induction xs rule: commands_run.induct) simp_all

lemma prompts_of_append: "prompts_of (xs @ ys) = prompts_of xs @ prompts_of ys"
  by (induction xs rule: prompts_of.induct) simp_all

lemma inputs_of_append: "inputs_of (xs @ ys) = inputs_of xs @ inputs_of ys"
  by (induction xs rule: inputs_of.induct) simp_all

lemma writes_of_append: "writes_of (xs @ ys) = writes_of xs @ writes_of ys"
  by (induction xs rule: writes_of.induct) simp_all

section \<open>Gathering the configuration\<close>

lemma get_user_config_lines:
  "stdin w = a # b # c # rest \<Longrightarrow>
   get_user_config w = (Inr (or_py a ''8080'', or_py b ''1883'', or_py c ''5683''),
     w\<lparr>stdin := rest, trace := trace w @
        [Prompt ''[PROMPT] Enter HTTP port for ThingsBoard (default: 8080): '', Input a,
         Prompt ''[PROMPT] Enter MQTT port (default: 1883): '', Input b,
         Prompt ''[PROMPT] Enter CoAP port (default: 5683): '', Input c]\<rparr>)"
  by (simp add: get_user_config_def input_py_def prog_defs)

lemma get_user_config_nonempty:
  "fst (get_user_config w) = Inr (a, b, c) \<Longrightarrow> a \<noteq> [] \<and> b \<noteq> [] \<and> c \<noteq> []"
  by (auto simp: get_user_config_def input_py_def prog_defs or_py_def
           split: list.splits if_splits)

text \<open>
  Claim C4. When the three port lines are empty, \<open>get_user_config\<close> returns the ports
  8080, 1883 and 5683; and whatever it returns, none of the three ports is the empty
  string.
\<close>

theorem get_user_config_defaults:
  "(stdin w = [] # [] # [] # rest \<longrightarrow>
      fst (get_user_config w) = Inr (''8080'', ''1883'', ''5683'')) \<and>
   (fst (get_user_config w) = Inr (a, b, c) \<longrightarrow> a \<noteq> [] \<and> b \<noteq> [] \<and> c \<noteq> [])"
  using get_user_config_nonempty [of w a b c]
  by (auto simp: get_user_config_lines or_py_def)

theorem get_user_config_defaults_witness:
  "stdin (fresh_world ['''', '''', '''', ''prod'']) = [] # [] # [] # [''prod''] \<and>
   fst (get_user_config (fresh_world ['''', '''', '''', ''prod'']))
     = Inr (''8080'', ''1883'', ''5683'') \<and>
   ''8080'' \<noteq> [] \<and> ''1883'' \<noteq> [] \<and> ''5683'' \<noteq> []"
  using get_user_config_defaults [of "fresh_world ['''', '''', '''', ''prod'']" "[''prod'']"
          "''8080''" "''1883''" "''5683''"]
  by (simp add: fresh_world_def)

subsection \<open>The environment tier\<close>

lemma of_char_lower:
  "(of_char (lower_char c) :: nat) =
     (if 65 \<le> (of_char c :: nat) \<and> (of_char c :: nat) \<le> 90 then of_char c + 32
      else of_char c)"
  by (simp add: lower_char_def)

lemma lower_char_iff:
  "lower_char c = d \<longleftrightarrow>
     (if 65 \<le> (of_char c :: nat) \<and> (of_char c :: nat) \<le> 90 then of_char c + 32
      else of_char c) = (of_char d :: nat)"
  unfolding of_char_lower [symmetric] by (simp only: of_char_eq_iff)

lemma char_nat_iff: "c = d \<longleftrightarrow> (of_char c :: nat) = of_char d"
  by (simp only: of_char_eq_iff)

lemma lower_char_p: "lower_char c = CHR ''p'' \<longleftrightarrow> c = CHR ''p'' \<or> c = CHR ''P''"
  unfolding lower_char_iff char_nat_iff [of c] by auto

lemma lower_char_r: "lower_char c = CHR ''r'' \<longleftrightarrow> c = CHR ''r'' \<or> c = CHR ''R''"
  unfolding lower_char_iff char_nat_iff [of c] by auto

lemma lower_char_o: "lower_char c = CHR ''o'' \<longleftrightarrow> c = CHR ''o'' \<or> c = CHR ''O''"
  unfolding lower_char_iff char_nat_iff [of c] by auto

lemma lower_char_d: "lower_char c = CHR ''d'' \<longleftrightarrow> c = CHR ''d'' \<or> c = CHR ''D''"
  unfolding lower_char_iff char_nat_iff [of c] by auto

lemma lower_eq_prod: "lower s = ''prod'' \<longleftrightarrow> prod_any_case s"
proof (cases s rule: prod_any_case.cases)
  case (1 c1 c2 c3 c4)
  then show ?thesis
    by (simp add: lower_def lower_char_p lower_char_r lower_char_o lower_char_d)
qed (auto simp: lower_def)

lemma env_is_prod: "or_py (lower s) ''dev'' = ''prod'' \<longleftrightarrow> prod_any_case s"
  using lower_eq_prod [of s] by (cases s) (auto simp: or_py_def lower_def)

text \<open>
  Claim C5. \<open>configure_environment\<close> reads one line. When the line is \<^verbatim>\<open>prod\<close> in any
  mix of upper and lower case, it returns the production limits; for every other line,
  the empty one too, it returns the development limits.
\<close>

theorem configure_environment_tiers:
  "stdin w = s # rest \<Longrightarrow>
   fst (configure_environment w) =
     Inr (if prod_any_case s
          then [''JAVA_OPTS'' \<mapsto> ''-Xms512m -Xmx1024m'', ''DB_POOL_SIZE'' \<mapsto> ''50'']
          else [''JAVA_OPTS'' \<mapsto> ''-Xms256m -Xmx512m'', ''DB_POOL_SIZE'' \<mapsto> ''20''])"
  by (simp add: configure_environment_def input_py_def prog_defs Let_def env_is_prod)

theorem configure_environment_tiers_witness:
  "stdin (fresh_world [''PrOd'']) = ''PrOd'' # [] \<and>
   fst (configure_environment (fresh_world [''PrOd''])) =
     Inr [''JAVA_OPTS'' \<mapsto> ''-Xms512m -Xmx1024m'', ''DB_POOL_SIZE'' \<mapsto> ''50'']"
  using configure_environment_tiers [of "fresh_world [''PrOd'']" "''PrOd''" "[]"]
  by (simp add: fresh_world_def)

section \<open>Backup and deployment of the descriptor\<close>

lemma paths_distinct: "compose_path \<noteq> backup_file"
  by (simp add: compose_path_def backup_file_def)

lemma backup_present:
  "files w compose_path = Some c \<Longrightarrow>
   backup_existing_compose_file w =
     (Inr (), w\<lparr>files := ((files w)(compose_path := None))(backup_file \<mapsto> c),
               trace := trace w @ [Rename compose_path backup_file,
                 Log INFO (''Existing docker-compose.yml backed up as '' @ backup_file)]\<rparr>)"
  by (simp add: backup_existing_compose_file_def os_path_exists_def os_rename_def prog_defs)

lemma backup_absent:
  "files w compose_path = None \<Longrightarrow> backup_existing_compose_file w = (Inr (), w)"
  by (simp add: backup_existing_compose_file_def os_path_exists_def prog_defs)

lemma files_run_command: "files (snd (run_command h c d w)) = files w"
  by (simp add: run_command_unfold split: captured.splits)

lemma files_install:
  "files (snd (install_thingsboard_docker_compose h a b c w))
     = (files w)(compose_path \<mapsto> compose_file_content a b c)"
  by (simp add: install_thingsboard_docker_compose_def write_file_def bnd_def emit_def
        files_run_command)

text \<open>
  Claim C3. When a descriptor with content \<open>old\<close> exists, the backup step returns
  normally, the backup path then holds \<open>old\<close> and the descriptor path is free, and the
  backup still holds \<open>old\<close> after the deploy step. When no descriptor exists, the backup
  step changes nothing. After the deploy step, started in any world and whether or not
  \<^verbatim>\<open>docker-compose up\<close> succeeds, the descriptor path holds the newly rendered text.
\<close>

theorem backup_then_deploy:
  "(files w compose_path = Some old \<longrightarrow>
      fst (backup_existing_compose_file w) = Inr () \<and>
      files (snd (backup_existing_compose_file w)) backup_file = Some old \<and>
      files (snd (backup_existing_compose_file w)) compose_path = None \<and>
      files (snd (install_thingsboard_docker_compose h a b c
               (snd (backup_existing_compose_file w)))) backup_file = Some old) \<and>
   (files w compose_path = None \<longrightarrow> backup_existing_compose_file w = (Inr (), w)) \<and>
   files (snd (install_thingsboard_docker_compose h a b c w')) compose_path
     = Some (compose_file_content a b c)"
  by (simp add: backup_present backup_absent files_install paths_distinct
        paths_distinct [symmetric])

theorem backup_then_deploy_witness:
  "files ((fresh_world [])\<lparr>files := [compose_path \<mapsto> ''version: 1'']\<rparr>) compose_path
     = Some ''version: 1'' \<and>
   files (snd (backup_existing_compose_file
     ((fresh_world [])\<lparr>files := [compose_path \<mapsto> ''version: 1'']\<rparr>))) backup_file
     = Some ''version: 1'' \<and>
   files (fresh_world []) compose_path = None \<and>
   backup_existing_compose_file (fresh_world []) = (Inr (), fresh_world [])"
  using backup_then_deploy [of "(fresh_world [])\<lparr>files := [compose_path \<mapsto> ''version: 1'']\<rparr>"
          "''version: 1''" host_ok "''8080''" "''1883''" "''5683''" "fresh_world []"]
        backup_then_deploy [of "fresh_world []" "''version: 1''" host_ok
          "''8080''" "''1883''" "''5683''" "fresh_world []"]
  by (simp add: fresh_world_def)

text \<open>
  Claim C9. When both the descriptor and a file at the backup path exist, the rename of
  the backup step puts the content of the descriptor at the backup path, in place of
  what was there: the file map afterwards is the old one with the descriptor path freed
  and the backup path overwritten.
\<close>

theorem backup_replaces_old_backup:
  "files w compose_path = Some c \<Longrightarrow> files w backup_file = Some older \<Longrightarrow>
   files (snd (backup_existing_compose_file w))
     = ((files w)(compose_path := None))(backup_file \<mapsto> c) \<and>
   files (snd (backup_existing_compose_file w)) backup_file = Some c"
  by (simp add: backup_present)

theorem backup_replaces_old_backup_witness:
  "files ((fresh_world [])\<lparr>files := [compose_path \<mapsto> ''second'', backup_file \<mapsto> ''first'']\<rparr>)
     compose_path = Some ''second'' \<and>
   files ((fresh_world [])\<lparr>files := [compose_path \<mapsto> ''second'', backup_file \<mapsto> ''first'']\<rparr>)
     backup_file = Some ''first'' \<and>
   files (snd (backup_existing_compose_file
     ((fresh_world [])\<lparr>files := [compose_path \<mapsto> ''second'', backup_file \<mapsto> ''first'']\<rparr>)))
     backup_file = Some ''second''"
  using backup_replaces_old_backup
     [of "(fresh_world [])\<lparr>files := [compose_path \<mapsto> ''second'', backup_file \<mapsto> ''first'']\<rparr>"
         "''second''" "''first''"]
  by (simp add: fresh_world_def paths_distinct paths_distinct [symmetric])

section \<open>The port entries of the descriptor\<close>

lemma split_acc_append:
  "newline_free p \<Longrightarrow> split_acc cur (p @ cs) = split_acc (rev p @ cur) cs"
  by (induction p arbitrary: cur) (auto simp: newline_free_def)

lemma lines_compose:
  assumes "newline_free a" "newline_free b" "newline_free c"
  shows \<open>lines_of (compose_file_content a b c) =
    [[], ''version: '' @ [CHR 0x27] @ ''3.5'' @ [CHR 0x27], ''services:'', ''  tb:'',
     ''    image: thingsboard/tb-postgres:latest'', ''    container_name: tb'',
     ''    ports:'',
     ''      - "'' @ a @ '':8080"'',
     ''      - "'' @ b @ '':1883"'',
     ''      - "'' @ c @ '':5683/udp"'',
     ''    environment:'', ''      TB_QUEUE_TYPE: kafka'',
     ''      SPRING_DATASOURCE_URL: jdbc:postgresql://postgres:5432/thingsboard'',
     ''      SPRING_DATASOURCE_USERNAME: tb_user'',
     ''      SPRING_DATASOURCE_PASSWORD: tb_password'',
     ''    depends_on:'', ''      - postgres'', [], ''  postgres:'',
     ''    image: postgres:12'', ''    container_name: postgres'', ''    environment:'',
     ''      POSTGRES_DB: thingsboard'', ''      POSTGRES_USER: tb_user'',
     ''      POSTGRES_PASSWORD: tb_password'', ''    volumes:'',
     ''      - ./data/db:/var/lib/postgresql/data'', []]\<close>
  using assms
  by (simp add: compose_file_content_def lines_of_def split_acc_append)

lemmas scan_defs = port_mappings_def strip_left_def is_item_def is_blank_or_comment_def

lemma port_mappings_compose:
  assumes "newline_free a" "newline_free b" "newline_free c"
  shows \<open>port_mappings (compose_file_content a b c) =
           [''"'' @ a @ '':8080"'', ''"'' @ b @ '':1883"'', ''"'' @ c @ '':5683/udp"'']\<close>
  by (simp add: scan_defs lines_compose [OF assms])

lemma plain_port_newline_free:
  assumes "plain_port s"
  shows "newline_free s"
proof -
  have "\<not> (32 \<le> (of_char (CHR ''\<newline>'') :: nat))" by simp
  with assms show ?thesis
    unfolding plain_port_def newline_free_def list_all_iff by blast
qed

lemma takeWhile_all_append:
  "(\<And>x. x \<in> set xs \<Longrightarrow> P x) \<Longrightarrow> takeWhile P (xs @ ys) = xs @ takeWhile P ys"
  by (induction xs) auto

lemma scalar_of_quoted:
  assumes "plain_port s" and "CHR 0x22 \<notin> set t" and "CHR 0x5C \<notin> set t"
  shows \<open>scalar_of ([CHR 0x22] @ s @ t @ [CHR 0x22]) = Some (s @ t)\<close>
proof -
  have q: "\<And>x. x \<in> set (s @ t) \<Longrightarrow> x \<noteq> CHR 0x22"
    using assms by (auto simp: plain_port_def list_all_iff)
  have b: "CHR 0x5C \<notin> set (s @ t)"
    using assms by (auto simp: plain_port_def list_all_iff)
  have tw: "takeWhile (\<lambda>c. c \<noteq> CHR 0x22) ((s @ t) @ [CHR 0x22]) = s @ t"
    using takeWhile_all_append [of "s @ t" "\<lambda>c. c \<noteq> CHR 0x22" "[CHR 0x22]"] q by simp
  show ?thesis
    using b tw by (simp add: scalar_of_def Let_def strip_left_def)
qed

lemma split_last_colon_append:
  assumes "CHR '':'' \<notin> set t"
  shows "split_last_colon (s @ CHR '':'' # t) = Some (s, t)"
proof -
  have "takeWhile (\<lambda>c. c \<noteq> CHR '':'') (rev t @ CHR '':'' # rev s) = rev t"
    using takeWhile_all_append [of "rev t" "\<lambda>c. c \<noteq> CHR '':''" "CHR '':'' # rev s"] assms
    by auto
  then show ?thesis
    by (simp add: split_last_colon_def Let_def)
qed

lemma mapping_of_item:
  assumes "plain_port s" and "CHR 0x22 \<notin> set t" and "CHR 0x5C \<notin> set t" and "CHR '':'' \<notin> set t"
  shows \<open>mapping_of ([CHR 0x22] @ s @ (CHR '':'' # t) @ [CHR 0x22]) = Some (s, t)\<close>
  using scalar_of_quoted [OF assms(1), of "CHR '':'' # t"] assms(2,3)
        split_last_colon_append [OF assms(4), of s]
  by (simp add: mapping_of_def)

lemma mappings_compose:
  assumes "plain_port a" "plain_port b" "plain_port c"
  shows "map mapping_of (port_mappings (compose_file_content a b c)) =
           [Some (a, ''8080''), Some (b, ''1883''), Some (c, ''5683/udp'')]"
  using mapping_of_item [OF assms(1), of "''8080''"] mapping_of_item [OF assms(2), of "''1883''"]
        mapping_of_item [OF assms(3), of "''5683/udp''"]
  by (simp add: port_mappings_compose [OF assms [THEN plain_port_newline_free]])

text \<open>
  Claim C6, as the script has it. The ports are put into the double-quoted items as they
  were typed. A port that holds a double quote ends the quoted text early: for the ports
  \<^verbatim>\<open>9090:80" #\<close>, 11883 and 15683 the first entry of the descriptor reads \<^verbatim>\<open>"9090:80" #:8080"\<close>,
  which maps to the container port 80, not to 8080.
\<close>

theorem descriptor_port_mappings_counterexample:
  \<open>map mapping_of (port_mappings (compose_file_content ''9090:80" #'' ''11883'' ''15683'')) =
     [Some (''9090'', ''80''), Some (''11883'', ''1883''), Some (''15683'', ''5683/udp'')]\<close>
proof -
  have n: \<open>newline_free ''9090:80" #''\<close> "newline_free ''11883''" "newline_free ''15683''"
    by (simp_all add: newline_free_def)
  show ?thesis
    by (simp add: port_mappings_compose [OF n] mapping_of_def scalar_of_def split_last_colon_def
          strip_left_def Let_def)
qed

text \<open>
  Claim C6, amended. For the ports 9090, 11883 and 15683, and for any three ports made of
  printable ASCII characters other than the double quote and the backslash, the descriptor
  that the deploy step writes has, in its whole text, exactly three port entries, and
  they map the given ports to the container ports 8080, 1883 and 5683 (the last one over
  UDP), in this order.
\<close>

theorem descriptor_port_mappings:
  assumes "plain_port a" "plain_port b" "plain_port c"
  shows \<open>files (snd (install_thingsboard_docker_compose h a b c w)) compose_path
           = Some (compose_file_content a b c) \<and>
         port_mappings (compose_file_content a b c) =
           [''"'' @ a @ '':8080"'', ''"'' @ b @ '':1883"'', ''"'' @ c @ '':5683/udp"''] \<and>
         map mapping_of (port_mappings (compose_file_content a b c)) =
           [Some (a, ''8080''), Some (b, ''1883''), Some (c, ''5683/udp'')]\<close>
proof (intro conjI)
  show "files (snd (install_thingsboard_docker_compose h a b c w)) compose_path
          = Some (compose_file_content a b c)"
    by (simp add: files_install)
  show \<open>port_mappings (compose_file_content a b c) =
         [''"'' @ a @ '':8080"'', ''"'' @ b @ '':1883"'', ''"'' @ c @ '':5683/udp"'']\<close>
    by (rule port_mappings_compose [OF assms [THEN plain_port_newline_free]])
  show "map mapping_of (port_mappings (compose_file_content a b c)) =
         [Some (a, ''8080''), Some (b, ''1883''), Some (c, ''5683/udp'')]"
    by (rule mappings_compose [OF assms])
qed

theorem descriptor_port_mappings_witness:
  \<open>plain_port ''9090'' \<and> plain_port ''11883'' \<and> plain_port ''15683'' \<and>
   port_mappings (compose_file_content ''9090'' ''11883'' ''15683'') =
     [''"9090:8080"'', ''"11883:1883"'', ''"15683:5683/udp"''] \<and>
   map mapping_of (port_mappings (compose_file_content ''9090'' ''11883'' ''15683'')) =
     [Some (''9090'', ''8080''), Some (''11883'', ''1883''), Some (''15683'', ''5683/udp'')]\<close>
proof -
  have n: "plain_port ''9090''" "plain_port ''11883''" "plain_port ''15683''"
    by (simp_all add: plain_port_def)
  note t = descriptor_port_mappings [OF n, of host_ok "fresh_world []"]
  have a: \<open>port_mappings (compose_file_content ''9090'' ''11883'' ''15683'') =
     [''"9090:8080"'', ''"11883:1883"'', ''"15683:5683/udp"'']\<close>
    using t by simp
  have b: "map mapping_of (port_mappings (compose_file_content ''9090'' ''11883'' ''15683'')) =
     [Some (''9090'', ''8080''), Some (''11883'', ''1883''), Some (''15683'', ''5683/udp'')]"
    by (rule t [THEN conjunct2, THEN conjunct2])
  show ?thesis by (intro conjI n a b)
qed

section \<open>The firewall\<close>

text \<open>One call of \<open>run_command\<close>, seen from the trace.\<close>

lemma run_command_returns:
  assumes "run_command h c d w = (Inr u, w1)"
  shows "trace w1 = trace w @ [Log INFO d, Run c]"
    and "outcomes h (trace w) (stdin w) (Log INFO d # Run c # rest)
           = True # outcomes h (trace w1) (stdin w1) rest"
  using assms
  by (auto simp: run_command_unfold split: if_splits captured.splits)

lemma run_command_raises:
  assumes "run_command h c d w = (Inl e, w1)"
  shows "\<exists>tl. trace w1 = trace w @ Log INFO d # Run c # tl \<and> commands_run tl = [] \<and>
           outcomes h (trace w) (stdin w) (Log INFO d # Run c # tl) = [False]"
  using assms
  by (auto simp: run_command_unfold split: if_splits captured.splits)

lemma stops_nothing: "stops_at_first_failure h [] (ret ())"
  by (simp add: stops_at_first_failure_def ret_def)

lemma stops_step:
  assumes k: "stops_at_first_failure h cs k"
  shows "stops_at_first_failure h (c # cs) (bnd (run_command h c d) (\<lambda>_. k))"
  unfolding stops_at_first_failure_def
proof
  fix w
  let ?p = "bnd (run_command h c d) (\<lambda>_. k)"
  obtain r1 w1 where rc: "run_command h c d w = (r1, w1)" by (cases "run_command h c d w")
  show "\<exists>es. trace (snd (?p w)) = trace w @ es \<and>
        commands_run es = take (length (outcomes h (trace w) (stdin w) es)) (c # cs) \<and>
        ff_shape (length (c # cs)) (outcomes h (trace w) (stdin w) es) \<and>
        ((fst (?p w) = Inr ()) = (outcomes h (trace w) (stdin w) es = replicate (length (c # cs)) True))"
  proof (cases r1)
    case (Inl e)
    with rc have b: "?p w = (Inl e, w1)" by (simp add: bnd_def)
    from run_command_raises [OF rc [unfolded Inl]] obtain tl where
      tl: "trace w1 = trace w @ Log INFO d # Run c # tl" "commands_run tl = []"
          "outcomes h (trace w) (stdin w) (Log INFO d # Run c # tl) = [False]"
      by blast
    show ?thesis
      using b tl by (intro exI [of _ "Log INFO d # Run c # tl"]) (simp del: outcomes.simps)
  next
    case (Inr u)
    with rc have b: "?p w = k w1" by (simp add: bnd_def)
    note r = run_command_returns [OF rc [unfolded Inr]]
    from k obtain es where
      es: "trace (snd (k w1)) = trace w1 @ es"
          "commands_run es = take (length (outcomes h (trace w1) (stdin w1) es)) cs"
          "ff_shape (length cs) (outcomes h (trace w1) (stdin w1) es)"
          "(fst (k w1) = Inr ()) = (outcomes h (trace w1) (stdin w1) es = replicate (length cs) True)"
      unfolding stops_at_first_failure_def by blast
    show ?thesis
      using b es r(1)
      by (intro exI [of _ "Log INFO d # Run c # es"]) (simp add: r(2) del: outcomes.simps)
  qed
qed

lemma bnd_ret_unit: "bnd m (\<lambda>_. ret ()) = (m :: unit prog)"
  by (rule ext) (simp add: bnd_def ret_def split: prod.splits sum.splits)

lemma stops_configure_firewall:
  "stops_at_first_failure h
     [''sudo ufw allow '' @ a, ''sudo ufw allow '' @ b, ''sudo ufw allow '' @ c,
      ''sudo ufw enable'']
     (configure_firewall h a b c)"
proof -
  have "configure_firewall h a b c =
     bnd (run_command h (''sudo ufw allow '' @ a) (''Allowing HTTP port '' @ a)) (\<lambda>_.
     bnd (run_command h (''sudo ufw allow '' @ b) (''Allowing MQTT port '' @ b)) (\<lambda>_.
     bnd (run_command h (''sudo ufw allow '' @ c) (''Allowing CoAP port '' @ c)) (\<lambda>_.
     bnd (run_command h ''sudo ufw enable'' ''Enabling the firewall'') (\<lambda>_. ret ()))))"
    by (simp only: configure_firewall_def bnd_ret_unit)
  then show ?thesis
    by (simp only: stops_step stops_nothing)
qed

lemma ff_shape_four:
  "ff_shape 4 os \<longleftrightarrow> os \<in> set [[False], [True, False], [True, True, False],
      [True, True, True, False], [True, True, True, True]]"
proof -
  have "ff_shape (Suc (Suc (Suc (Suc 0)))) os \<longleftrightarrow> os \<in> set [[False], [True, False],
      [True, True, False], [True, True, True, False], [True, True, True, True]]"
    by (cases os; cases "tl os"; cases "tl (tl os)"; cases "tl (tl (tl os))";
        cases "tl (tl (tl (tl os)))") auto
  then show ?thesis by (simp add: numeral_eq_Suc)
qed

lemma firewall_outcomes:
  "outcomes h (trace w) (stdin w) (new_events (configure_firewall h a b c) w)
     \<in> set [[False], [True, False], [True, True, False], [True, True, True, False],
             [True, True, True, True]] \<and>
   commands_run (new_events (configure_firewall h a b c) w)
     = take (length (outcomes h (trace w) (stdin w) (new_events (configure_firewall h a b c) w)))
         [''sudo ufw allow '' @ a, ''sudo ufw allow '' @ b, ''sudo ufw allow '' @ c,
          ''sudo ufw enable''] \<and>
   (fst (configure_firewall h a b c w) = Inr ())
     = (outcomes h (trace w) (stdin w) (new_events (configure_firewall h a b c) w)
          = [True, True, True, True])"
proof -
  let ?cs = "[''sudo ufw allow '' @ a, ''sudo ufw allow '' @ b, ''sudo ufw allow '' @ c,
              ''sudo ufw enable'']"
  from stops_configure_firewall [of h a b c] obtain es where
    es: "trace (snd (configure_firewall h a b c w)) = trace w @ es"
        "commands_run es = take (length (outcomes h (trace w) (stdin w) es)) ?cs"
        "ff_shape (length ?cs) (outcomes h (trace w) (stdin w) es)"
        "(fst (configure_firewall h a b c w) = Inr ())
           = (outcomes h (trace w) (stdin w) es = replicate (length ?cs) True)"
    unfolding stops_at_first_failure_def by blast
  have n: "new_events (configure_firewall h a b c) w = es"
    using es(1) by (simp add: new_events_def)
  have l: "length ?cs = 4" by simp
  have r: "replicate (length ?cs) True = [True, True, True, True]"
    by (simp add: numeral_eq_Suc)
  show ?thesis
    unfolding n using es(2) es(3) [unfolded l ff_shape_four] es(4) [unfolded r]
    by (intro conjI)
qed


lemmas firewall_eval = new_events_def configure_firewall_def bnd_def run_command_unfold
  fresh_world_def

text \<open>
  Claim C7, as the script has it. On a host without \<^verbatim>\<open>ufw\<close> the first allow command
  fails, the process exits, and no other command is issued: one allow rule, no enable.
\<close>

theorem configure_firewall_counterexample:
  "commands_run (new_events (configure_firewall host_no_ufw ''8080'' ''1883'' ''5683'')
       (fresh_world [])) = [''sudo ufw allow 8080''] \<and>
   fst (configure_firewall host_no_ufw ''8080'' ''1883'' ''5683'' (fresh_world []))
     = Inl (SystemExit 1)"
  by (simp add: firewall_eval host_no_ufw_def host_ok_def)

text \<open>
  Claim C7, amended. \<open>configure_firewall\<close> hands the commands allow (HTTP port), allow
  (MQTT port), allow (CoAP port), enable to the runner in this order and stops after the
  first one that fails (it is refused, or returns a code other than 0): of the commands
  issued, all but the last succeeded, and when fewer than four were issued the last one
  failed. When the three allow commands succeed, it issues exactly one allow rule for each
  port and then one enable. It returns normally exactly when all four succeeded.
\<close>

theorem configure_firewall_order:
  "outcomes h (trace w) (stdin w) (new_events (configure_firewall h a b c) w)
     \<in> set [[False], [True, False], [True, True, False], [True, True, True, False],
             [True, True, True, True]] \<and>
   commands_run (new_events (configure_firewall h a b c) w)
     = take (length (outcomes h (trace w) (stdin w) (new_events (configure_firewall h a b c) w)))
         [''sudo ufw allow '' @ a, ''sudo ufw allow '' @ b, ''sudo ufw allow '' @ c,
          ''sudo ufw enable''] \<and>
   (take 3 (outcomes h (trace w) (stdin w) (new_events (configure_firewall h a b c) w))
      = [True, True, True] \<longrightarrow>
    commands_run (new_events (configure_firewall h a b c) w)
      = [''sudo ufw allow '' @ a, ''sudo ufw allow '' @ b, ''sudo ufw allow '' @ c,
         ''sudo ufw enable'']) \<and>
   (fst (configure_firewall h a b c w) = Inr ())
     = (outcomes h (trace w) (stdin w) (new_events (configure_firewall h a b c) w)
          = [True, True, True, True])"
  using firewall_outcomes [of h w a b c] by auto

theorem configure_firewall_order_witness:
  "take 3 (outcomes host_ok (trace (fresh_world [])) (stdin (fresh_world []))
     (new_events (configure_firewall host_ok ''8080'' ''1883'' ''5683'') (fresh_world [])))
     = [True, True, True] \<and>
   commands_run (new_events (configure_firewall host_ok ''8080'' ''1883'' ''5683'')
       (fresh_world []))
     = [''sudo ufw allow 8080'', ''sudo ufw allow 1883'', ''sudo ufw allow 5683'',
        ''sudo ufw enable''] \<and>
   outcomes host_no_ufw (trace (fresh_world [])) (stdin (fresh_world []))
     (new_events (configure_firewall host_no_ufw ''8080'' ''1883'' ''5683'') (fresh_world []))
     = [False] \<and>
   fst (configure_firewall host_no_ufw ''8080'' ''1883'' ''5683'' (fresh_world [])) \<noteq> Inr ()"
proof -
  have ok: "outcomes host_ok (trace (fresh_world [])) (stdin (fresh_world []))
     (new_events (configure_firewall host_ok ''8080'' ''1883'' ''5683'') (fresh_world []))
     = [True, True, True, True]"
    by (simp add: firewall_eval host_ok_def)
  have no: "outcomes host_no_ufw (trace (fresh_world [])) (stdin (fresh_world []))
     (new_events (configure_firewall host_no_ufw ''8080'' ''1883'' ''5683'') (fresh_world []))
     = [False]"
    by (simp add: firewall_eval host_no_ufw_def host_ok_def)
  from configure_firewall_order [of host_ok "fresh_world []" "''8080''" "''1883''" "''5683''"]
       configure_firewall_order [of host_no_ufw "fresh_world []" "''8080''" "''1883''" "''5683''"]
  show ?thesis unfolding ok no by simp
qed

section \<open>Ports are taken as they are typed\<close>



section \<open>The notification\<close>


lemma aside_bnd:
  assumes p: "aside p" and k: "\<And>x. aside (k x)"
  shows "aside (bnd p k)"
  unfolding aside_def
proof
  fix w
  from p obtain e1 where e1: "trace (snd (p w)) = trace w @ e1" "commands_run e1 = []"
      "\<not> is_exit (fst (p w))" "files (snd (p w)) = files w"
    unfolding aside_def by blast
  obtain r1 w1 where pw: "p w = (r1, w1)" by (cases "p w")
  show "\<exists>evs. trace (snd (bnd p k w)) = trace w @ evs \<and> commands_run evs = [] \<and>
      \<not> is_exit (fst (bnd p k w)) \<and> files (snd (bnd p k w)) = files w"
  proof (cases r1)
    case (Inl e)
    then have "bnd p k w = (Inl e, w1)" using pw by (simp add: bnd_def)
    with e1 pw Inl show ?thesis by (intro exI [of _ e1]) auto
  next
    case (Inr x)
    then have b: "bnd p k w = k x w1" using pw by (simp add: bnd_def)
    from k [of x] obtain e2 where e2: "trace (snd (k x w1)) = trace w1 @ e2"
      "commands_run e2 = []" "\<not> is_exit (fst (k x w1))" "files (snd (k x w1)) = files w1"
      unfolding aside_def by blast
    from e1 pw have t1: "trace w1 = trace w @ e1" "files w1 = files w" by simp_all
    show ?thesis
      using b e2 e1(2) t1
      by (intro exI [of _ "e1 @ e2"]) (simp add: commands_run_append)
  qed
qed

lemma aside_with_exit:
  assumes x: "aside x" and b: "aside b"
  shows "aside (with_exit x b)"
  unfolding aside_def
proof
  fix w
  obtain r1 w1 where bw: "b w = (r1, w1)" by (cases "b w")
  obtain r2 w2 where xw: "x w1 = (r2, w2)" by (cases "x w1")
  from b bw obtain e1 where e1: "trace w1 = trace w @ e1" "commands_run e1 = []"
      "\<not> is_exit r1" "files w1 = files w"
    unfolding aside_def by (metis fst_conv snd_conv)
  from x xw obtain e2 where e2: "trace w2 = trace w1 @ e2" "commands_run e2 = []"
      "\<not> is_exit r2" "files w2 = files w1"
    unfolding aside_def by (metis fst_conv snd_conv)
  have "with_exit x b w = (case r2 of Inl e \<Rightarrow> (Inl e, w2) | Inr u \<Rightarrow> (r1, w2))"
    by (simp add: with_exit_def bw xw)
  then show "\<exists>evs. trace (snd (with_exit x b w)) = trace w @ evs \<and> commands_run evs = [] \<and>
      \<not> is_exit (fst (with_exit x b w)) \<and> files (snd (with_exit x b w)) = files w"
    using e1 e2
    by (intro exI [of _ "e1 @ e2"]) (auto simp: commands_run_append split: sum.splits)
qed

lemma aside_try:
  assumes b: "aside b" and hd: "\<And>m. aside (hdl m)"
  shows "aside (try_except_Exception b hdl)"
  unfolding aside_def
proof
  fix w
  obtain r1 w1 where bw: "b w = (r1, w1)" by (cases "b w")
  from b bw obtain e1 where e1: "trace w1 = trace w @ e1" "commands_run e1 = []"
      "\<not> is_exit r1" "files w1 = files w"
    unfolding aside_def by (metis fst_conv snd_conv)
  show "\<exists>evs. trace (snd (try_except_Exception b hdl w)) = trace w @ evs \<and> commands_run evs = [] \<and>
      \<not> is_exit (fst (try_except_Exception b hdl w)) \<and>
      files (snd (try_except_Exception b hdl w)) = files w"
  proof (cases r1)
    case (Inr v)
    then have "try_except_Exception b hdl w = (Inr v, w1)"
      by (simp add: try_except_Exception_def bw)
    with e1 show ?thesis by (intro exI [of _ e1]) auto
  next
    case (Inl e)
    with e1 obtain cls m where e: "e = Exception cls m" by (cases e) auto
    then have t: "try_except_Exception b hdl w = hdl m w1"
      by (simp add: try_except_Exception_def bw Inl)
    from hd [of m] obtain e2 where e2: "trace (snd (hdl m w1)) = trace w1 @ e2"
      "commands_run e2 = []" "\<not> is_exit (fst (hdl m w1))" "files (snd (hdl m w1)) = files w1"
      unfolding aside_def by blast
    show ?thesis using t e1 e2
      by (intro exI [of _ "e1 @ e2"]) (simp add: commands_run_append)
  qed
qed

lemma aside_log: "aside (logger_info m)" "aside (logger_error m)"
  by (simp_all add: aside_def prog_defs)

lemma aside_smtp_call: "aside (smtp_call h s)"
  by (simp add: aside_def smtp_call_def prog_defs split: option.splits)

lemma aside_send_notification: "aside (send_notification h email success)"
  unfolding send_notification_def smtp_session_def Let_def
  by (intro aside_try aside_bnd aside_with_exit aside_smtp_call aside_log)

lemma aside_keeps_files: "aside p \<Longrightarrow> keeps_files p"
  unfolding aside_def keeps_files_def by blast

lemma send_notification_unit: "fst (send_notification h email success w) = Inr ()"
proof -
  from aside_send_notification [of h email success]
  have "\<not> is_exit (fst (send_notification h email success w))"
    unfolding aside_def by blast
  moreover have "\<And>cls m. fst (send_notification h email success w) \<noteq> Inl (Exception cls m)"
    by (simp add: send_notification_def try_except_Exception_def Let_def prog_defs
          split: prod.splits sum.splits exn.splits)
  ultimately show ?thesis
    by (cases "fst (send_notification h email success w)")
       (metis exits.elims(3) is_exit.simps(1), simp)
qed

lemma send_notification_cases:
  "send_notification h email success w =
     (case smtp_session h
        \<lparr>payload = ''The ThingsBoard installation completed with status: ''
                     @ (if success then ''SUCCESS'' else ''FAILURE''),
         subject = ''ThingsBoard Installation Status'',
         sender = ''noreply@example.com'', recipient = email\<rparr> w of
        (Inr u, w1) \<Rightarrow> logger_info ''[INFO] Notification email sent.'' w1
      | (Inl (Exception cls m), w1) \<Rightarrow>
          logger_error (''[ERROR] Failed to send notification email: '' @ m) w1
      | (Inl (SystemExit n), w1) \<Rightarrow> (Inl (SystemExit n), w1))"
proof -
  let ?m = "\<lparr>payload = ''The ThingsBoard installation completed with status: ''
                     @ (if success then ''SUCCESS'' else ''FAILURE''),
         subject = ''ThingsBoard Installation Status'',
         sender = ''noreply@example.com'', recipient = email\<rparr>"
  obtain r1 w1 where s: "smtp_session h ?m w = (r1, w1)" by (cases "smtp_session h ?m w")
  show ?thesis
  proof (cases r1)
    case (Inr u)
    with s show ?thesis
      by (simp add: send_notification_def Let_def try_except_Exception_def prog_defs)
  next
    case (Inl e)
    with s show ?thesis
      by (cases e) (simp_all add: send_notification_def Let_def try_except_Exception_def prog_defs)
  qed
qed

text \<open>
  Claim C8. \<open>send_notification\<close> always returns normally, whatever the mail server does:
  the statement that follows it runs, in the world it leaves, and the files are as
  before. When the mail session raises an exception with text \<open>m\<close>, the last thing
  \<open>send_notification\<close> does is to log the error with that text.
\<close>

theorem send_notification_never_escalates:
  "fst (send_notification h email success w) = Inr () \<and>
   bnd (send_notification h email success) k w
     = k () (snd (send_notification h email success w)) \<and>
   files (snd (send_notification h email success w)) = files w \<and>
   (fst (smtp_session h
      \<lparr>payload = ''The ThingsBoard installation completed with status: ''
                   @ (if success then ''SUCCESS'' else ''FAILURE''),
       subject = ''ThingsBoard Installation Status'',
       sender = ''noreply@example.com'', recipient = email\<rparr> w) = Inl (Exception cls m) \<longrightarrow>
    last (trace (snd (send_notification h email success w)))
      = Log ERROR (''[ERROR] Failed to send notification email: '' @ m))"
proof -
  have u: "fst (send_notification h email success w) = Inr ()"
    by (rule send_notification_unit)
  have b: "bnd (send_notification h email success) k w
     = k () (snd (send_notification h email success w))"
    using u by (cases "send_notification h email success w") (simp add: bnd_def)
  have f: "files (snd (send_notification h email success w)) = files w"
    using aside_keeps_files [OF aside_send_notification] by (simp add: keeps_files_def)
  show ?thesis
    using u b f
    by (auto simp: send_notification_cases [of h email success w] prog_defs
             split: prod.splits)
qed

theorem send_notification_never_escalates_witness:
  "fst (smtp_session host_no_mail
      \<lparr>payload = ''The ThingsBoard installation completed with status: SUCCESS'',
       subject = ''ThingsBoard Installation Status'',
       sender = ''noreply@example.com'', recipient = ''admin@example.com''\<rparr> (fresh_world []))
     = Inl (Exception ''Exception'' ''[Errno 111] Connection refused'') \<and>
   fst (send_notification host_no_mail ''admin@example.com'' True (fresh_world [])) = Inr () \<and>
   last (trace (snd (send_notification host_no_mail ''admin@example.com'' True (fresh_world []))))
     = Log ERROR ''[ERROR] Failed to send notification email: [Errno 111] Connection refused''"
proof -
  have s: "fst (smtp_session host_no_mail
      \<lparr>payload = ''The ThingsBoard installation completed with status: SUCCESS'',
       subject = ''ThingsBoard Installation Status'',
       sender = ''noreply@example.com'', recipient = ''admin@example.com''\<rparr> (fresh_world []))
     = Inl (Exception ''Exception'' ''[Errno 111] Connection refused'')"
    by (simp add: smtp_session_def smtp_call_def with_exit_def prog_defs host_no_mail_def
          host_ok_def fresh_world_def)
  from send_notification_never_escalates [where h = host_no_mail and email = "''admin@example.com''"
         and success = True and w = "fresh_world []" and k = ret and cls = "''Exception''"
         and m = "''[Errno 111] Connection refused''"] s
  show ?thesis by simp
qed

section \<open>The command runner on a standard error that does not decode\<close>

text \<open>
  The fatal path of \<open>run_command\<close>, when the command is started and its standard error is
  text: the error records, \<^verbatim>\<open>SystemExit(1)\<close>, and nothing of what follows.
\<close>

lemma run_command_fatal:
  assumes "CHR 0x00 \<notin> set c"
    and "fst (shell h (trace w @ [Log INFO d, Run c]) (stdin w) c) \<noteq> 0"
    and "fst (snd (shell h (trace w @ [Log INFO d, Run c]) (stdin w) c)) = Text s"
  shows "fst (run_command h c d w) = Inl (SystemExit 1)"
    and "trace (snd (run_command h c d w))
           = trace w @ [Log INFO d, Run c, Log ERROR (''Failed to execute: '' @ c), Log ERROR s]"
    and "bnd (run_command h c d) k w = run_command h c d w"
  using assms by (simp_all add: run_command_unfold bnd_def)

lemmas run_defs = full_installation_def pre_install_check_def update_and_upgrade_system_def
  install_docker_def backup_existing_compose_file_def get_user_config_def
  install_thingsboard_docker_compose_def configure_firewall_def verify_installation_def
  send_notification_def try_except_Exception_def smtp_session_def smtp_call_def with_exit_def
  subprocess_returncode_def subprocess_run_def input_py_def os_path_exists_def os_rename_def
  write_file_def run_command_unfold prog_defs Let_def or_py_def

text \<open>
  Claim C2, on a host where the failing command leaves a standard error that is not
  UTF-8. \<open>run_command\<close> logs the description and the command, and then \<^verbatim>\<open>decode()\<close> raises
  inside the handler: the standard error is not logged, \<^verbatim>\<open>exit(1)\<close> is not reached, and
  the run ends with \<^verbatim>\<open>UnicodeDecodeError\<close>. No later step of the pipeline runs.
\<close>

theorem run_command_undecodable_stderr:
  "run_command host_latin1_apt ''sudo apt update && sudo apt upgrade -y''
       ''Updating and upgrading Ubuntu'' (fresh_world []) =
     (Inl (Exception ''UnicodeDecodeError'' latin1_error),
      (fresh_world [])\<lparr>trace := [Log INFO ''Updating and upgrading Ubuntu'',
          Run ''sudo apt update && sudo apt upgrade -y'',
          Log ERROR ''Failed to execute: sudo apt update && sudo apt upgrade -y'']\<rparr>) \<and>
   fst (full_installation host_latin1_apt (fresh_world []))
     = Inl (Exception ''UnicodeDecodeError'' latin1_error) \<and>
   new_events (full_installation host_latin1_apt) (fresh_world []) =
     [Log INFO ''Performing pre-installation checks...'',
      Probe ''docker --version'',
      Log INFO ''[INFO] Docker is already installed.'',
      Log INFO ''Updating and upgrading Ubuntu'',
      Run ''sudo apt update && sudo apt upgrade -y'',
      Log ERROR ''Failed to execute: sudo apt update && sudo apt upgrade -y'']"
  by (simp add: run_defs new_events_def host_latin1_apt_def host_ok_def fresh_world_def)

section \<open>The environment tier and the descriptor\<close>

lemma no_io_bnd:
  assumes p: "no_io p" and k: "\<And>x. no_io (k x)"
  shows "no_io (bnd p k)"
  unfolding no_io_def
proof
  fix w
  from p obtain e1 where e1: "trace (snd (p w)) = trace w @ e1" "prompts_of e1 = []"
      "inputs_of e1 = []" "writes_of e1 = []"
    unfolding no_io_def by blast
  obtain r1 w1 where pw: "p w = (r1, w1)" by (cases "p w")
  show "\<exists>evs. trace (snd (bnd p k w)) = trace w @ evs \<and> prompts_of evs = [] \<and>
      inputs_of evs = [] \<and> writes_of evs = []"
  proof (cases r1)
    case (Inl e)
    then have "bnd p k w = (Inl e, w1)" using pw by (simp add: bnd_def)
    with e1 pw show ?thesis by (intro exI [of _ e1]) auto
  next
    case (Inr x)
    then have b: "bnd p k w = k x w1" using pw by (simp add: bnd_def)
    from k [of x] obtain e2 where e2: "trace (snd (k x w1)) = trace w1 @ e2"
      "prompts_of e2 = []" "inputs_of e2 = []" "writes_of e2 = []"
      unfolding no_io_def by blast
    from e1 pw have t1: "trace w1 = trace w @ e1" by simp
    show ?thesis
      using b e2 e1(2,3,4) t1
      by (intro exI [of _ "e1 @ e2"])
         (simp add: prompts_of_append inputs_of_append writes_of_append)
  qed
qed

lemma no_io_with_exit:
  assumes x: "no_io x" and b: "no_io b"
  shows "no_io (with_exit x b)"
  unfolding no_io_def
proof
  fix w
  obtain r1 w1 where bw: "b w = (r1, w1)" by (cases "b w")
  obtain r2 w2 where xw: "x w1 = (r2, w2)" by (cases "x w1")
  from b bw obtain e1 where e1: "trace w1 = trace w @ e1" "prompts_of e1 = []"
      "inputs_of e1 = []" "writes_of e1 = []"
    unfolding no_io_def by (metis snd_conv)
  from x xw obtain e2 where e2: "trace w2 = trace w1 @ e2" "prompts_of e2 = []"
      "inputs_of e2 = []" "writes_of e2 = []"
    unfolding no_io_def by (metis snd_conv)
  have "snd (with_exit x b w) = w2"
    by (simp add: with_exit_def bw xw split: sum.splits)
  then show "\<exists>evs. trace (snd (with_exit x b w)) = trace w @ evs \<and> prompts_of evs = [] \<and>
      inputs_of evs = [] \<and> writes_of evs = []"
    using e1 e2
    by (intro exI [of _ "e1 @ e2"])
       (simp add: prompts_of_append inputs_of_append writes_of_append)
qed

lemma no_io_try:
  assumes b: "no_io b" and hd: "\<And>m. no_io (hdl m)"
  shows "no_io (try_except_Exception b hdl)"
  unfolding no_io_def
proof
  fix w
  obtain r1 w1 where bw: "b w = (r1, w1)" by (cases "b w")
  from b bw obtain e1 where e1: "trace w1 = trace w @ e1" "prompts_of e1 = []"
      "inputs_of e1 = []" "writes_of e1 = []"
    unfolding no_io_def by (metis snd_conv)
  have c: "snd (try_except_Exception b hdl w) = w1
           \<or> (\<exists>m. snd (try_except_Exception b hdl w) = snd (hdl m w1))"
    by (auto simp: try_except_Exception_def bw split: sum.splits exn.splits)
  show "\<exists>evs. trace (snd (try_except_Exception b hdl w)) = trace w @ evs \<and>
      prompts_of evs = [] \<and> inputs_of evs = [] \<and> writes_of evs = []"
  proof (rule disjE [OF c])
    assume "snd (try_except_Exception b hdl w) = w1"
    with e1 show ?thesis by (intro exI [of _ e1]) simp
  next
    assume "\<exists>m. snd (try_except_Exception b hdl w) = snd (hdl m w1)"
    then obtain m where m: "snd (try_except_Exception b hdl w) = snd (hdl m w1)" by blast
    from hd [of m] obtain e2 where e2: "trace (snd (hdl m w1)) = trace w1 @ e2"
      "prompts_of e2 = []" "inputs_of e2 = []" "writes_of e2 = []"
      unfolding no_io_def by blast
    show ?thesis using m e1 e2
      by (intro exI [of _ "e1 @ e2"])
         (simp add: prompts_of_append inputs_of_append writes_of_append)
  qed
qed

lemma no_io_ret: "no_io (ret x)"
  by (simp add: no_io_def ret_def)

lemma no_io_log:
  "no_io (logger_info m)" "no_io (logger_warning m)" "no_io (logger_error m)"
  by (simp_all add: no_io_def prog_defs)

lemma no_io_run_command: "no_io (run_command h c d)"
  by (simp add: no_io_def run_command_unfold split: captured.splits)

lemma no_io_smtp_call: "no_io (smtp_call h s)"
  by (simp add: no_io_def smtp_call_def prog_defs split: option.splits)

lemma no_io_probe: "no_io (subprocess_returncode h c)"
  by (simp add: no_io_def subprocess_returncode_def subprocess_run_def prog_defs
           split: prod.splits)

lemma no_io_pre_install_check: "no_io (pre_install_check h)"
  unfolding pre_install_check_def
  by (intro no_io_bnd no_io_log no_io_probe) (simp_all add: no_io_log no_io_ret)

lemma no_io_install_docker: "no_io (install_docker h)"
  unfolding install_docker_def by (intro no_io_bnd no_io_run_command)

lemma no_io_backup: "no_io backup_existing_compose_file"
  by (simp add: no_io_def backup_existing_compose_file_def os_path_exists_def
        os_rename_def prog_defs split: option.splits)

lemma no_io_firewall: "no_io (configure_firewall h a b c)"
  unfolding configure_firewall_def by (intro no_io_bnd no_io_run_command)

lemma no_io_verify: "no_io (verify_installation h)"
  unfolding verify_installation_def by (intro no_io_bnd no_io_run_command no_io_log)

lemma no_io_send_notification: "no_io (send_notification h email success)"
  unfolding send_notification_def smtp_session_def Let_def
  by (intro no_io_try no_io_bnd no_io_with_exit no_io_smtp_call no_io_log)

lemma no_io_before: "no_io (before_config h)"
  unfolding before_config_def update_and_upgrade_system_def
  by (intro no_io_bnd no_io_pre_install_check no_io_run_command no_io_install_docker
        no_io_backup)

lemma keeps_files_bnd:
  assumes "\<And>x. keeps_files (k x)"
  shows "files (snd (bnd p k w)) = files (snd (p w))"
  using assms by (cases "p w") (auto simp: bnd_def keeps_files_def split: sum.splits)

lemma keeps_files_bnd2:
  assumes "keeps_files p" "\<And>x. keeps_files (k x)"
  shows "keeps_files (bnd p k)"
  using assms keeps_files_bnd [of k p] by (simp add: keeps_files_def)

lemma keeps_files_run_command: "keeps_files (run_command h c d)"
  by (simp add: keeps_files_def files_run_command)

lemma keeps_files_log: "keeps_files (logger_info m)"
  by (simp add: keeps_files_def prog_defs)

lemma keeps_files_firewall: "keeps_files (configure_firewall h a b c)"
  unfolding configure_firewall_def by (intro keeps_files_bnd2 keeps_files_run_command)

lemma keeps_files_verify: "keeps_files (verify_installation h)"
  unfolding verify_installation_def
  by (intro keeps_files_bnd2 keeps_files_run_command keeps_files_log)

lemma files_after_config:
  "files (snd (after_config h a b c w)) = (files w)(compose_path \<mapsto> compose_file_content a b c)"
  unfolding after_config_def
  by (subst keeps_files_bnd)
     (intro keeps_files_bnd2 keeps_files_firewall keeps_files_verify
        aside_keeps_files [OF aside_send_notification], simp add: files_install)

lemma after_config_io:
  "\<exists>es. trace (snd (after_config h a b c w))
           = trace w @ Write compose_path (compose_file_content a b c) # es \<and>
        prompts_of es = [] \<and> inputs_of es = [] \<and> writes_of es = []"
proof -
  let ?R = "bnd (run_command h ''docker-compose up -d''
                   ''Deploying ThingsBoard with Docker Compose'') (\<lambda>_.
            bnd (configure_firewall h a b c) (\<lambda>_.
            bnd (verify_installation h) (\<lambda>_.
            send_notification h ''admin@example.com'' True)))"
  let ?w = "w\<lparr>files := (files w)(compose_path \<mapsto> compose_file_content a b c),
              trace := trace w @ [Write compose_path (compose_file_content a b c)]\<rparr>"
  have n: "no_io ?R"
    by (intro no_io_bnd no_io_run_command no_io_firewall no_io_verify no_io_send_notification)
  have e: "after_config h a b c w = ?R ?w"
    by (simp add: after_config_def install_thingsboard_docker_compose_def bnd_assoc
          write_file_def bnd_def emit_def)
  from n obtain es where "trace (snd (?R ?w)) = trace ?w @ es" "prompts_of es = []"
      "inputs_of es = []" "writes_of es = []"
    unfolding no_io_def by blast
  then show ?thesis
    unfolding e by (intro exI [of _ es]) simp
qed

lemma get_user_config_io:
  "\<exists>es. trace (snd (get_user_config w)) = trace w @ es \<and> writes_of es = [] \<and>
        prompts_of es = take (length (prompts_of es))
           [''[PROMPT] Enter HTTP port for ThingsBoard (default: 8080): '',
            ''[PROMPT] Enter MQTT port (default: 1883): '',
            ''[PROMPT] Enter CoAP port (default: 5683): ''] \<and>
        length (inputs_of es) \<le> 3 \<and>
        (\<forall>a b c. fst (get_user_config w) = Inr (a, b, c) \<longrightarrow>
           length (inputs_of es) = 3 \<and>
           a = or_py (inputs_of es ! 0) ''8080'' \<and>
           b = or_py (inputs_of es ! 1) ''1883'' \<and>
           c = or_py (inputs_of es ! 2) ''5683'')"
proof (cases "stdin w")
  case Nil
  then show ?thesis
    by (intro exI [of _ "[Prompt ''[PROMPT] Enter HTTP port for ThingsBoard (default: 8080): '']"])
       (simp add: get_user_config_def input_py_def prog_defs)
next
  case (Cons l1 r1)
  note c1 = this
  show ?thesis
  proof (cases r1)
    case Nil
    with c1 show ?thesis
      by (intro exI [of _ "[Prompt ''[PROMPT] Enter HTTP port for ThingsBoard (default: 8080): '',
            Input l1, Prompt ''[PROMPT] Enter MQTT port (default: 1883): '']"])
         (simp add: get_user_config_def input_py_def prog_defs)
  next
    case (Cons l2 r2)
    note c2 = this
    show ?thesis
    proof (cases r2)
      case Nil
      with c1 c2 show ?thesis
        by (intro exI [of _ "[Prompt ''[PROMPT] Enter HTTP port for ThingsBoard (default: 8080): '',
              Input l1, Prompt ''[PROMPT] Enter MQTT port (default: 1883): '', Input l2,
              Prompt ''[PROMPT] Enter CoAP port (default: 5683): '']"])
           (simp add: get_user_config_def input_py_def prog_defs)
    next
      case (Cons l3 r3)
      with c1 c2 have s: "stdin w = l1 # l2 # l3 # r3" by simp
      show ?thesis
        by (intro exI [of _ "[Prompt ''[PROMPT] Enter HTTP port for ThingsBoard (default: 8080): '',
              Input l1, Prompt ''[PROMPT] Enter MQTT port (default: 1883): '', Input l2,
              Prompt ''[PROMPT] Enter CoAP port (default: 5683): '', Input l3]"])
           (simp add: get_user_config_lines [OF s])
    qed
  qed
qed

lemma full_installation_parts:
  "full_installation h =
     bnd (before_config h) (\<lambda>_. bnd get_user_config (\<lambda>(a, b, c). after_config h a b c))"
  by (simp add: full_installation_def before_config_def after_config_def bnd_assoc)

lemma full_installation_io:
  "\<exists>es. trace (snd (full_installation h w)) = trace w @ es \<and>
     prompts_of es = take (length (prompts_of es))
        [''[PROMPT] Enter HTTP port for ThingsBoard (default: 8080): '',
         ''[PROMPT] Enter MQTT port (default: 1883): '',
         ''[PROMPT] Enter CoAP port (default: 5683): ''] \<and>
     length (inputs_of es) \<le> 3 \<and>
     (writes_of es = [] \<or>
      length (inputs_of es) = 3 \<and>
      writes_of es = [(compose_path,
         compose_file_content (or_py (inputs_of es ! 0) ''8080'')
           (or_py (inputs_of es ! 1) ''1883'') (or_py (inputs_of es ! 2) ''5683''))]) \<and>
     (fst (full_installation h w) = Inr () \<longrightarrow>
        length (inputs_of es) = 3 \<and>
        files (snd (full_installation h w)) compose_path =
          Some (compose_file_content (or_py (inputs_of es ! 0) ''8080'')
                  (or_py (inputs_of es ! 1) ''1883'') (or_py (inputs_of es ! 2) ''5683'')))"
proof -
  let ?P = "[''[PROMPT] Enter HTTP port for ThingsBoard (default: 8080): '',
             ''[PROMPT] Enter MQTT port (default: 1883): '',
             ''[PROMPT] Enter CoAP port (default: 5683): '']"
  from no_io_before [of h] obtain eb where
    eb: "trace (snd (before_config h w)) = trace w @ eb" "prompts_of eb = []"
        "inputs_of eb = []" "writes_of eb = []"
    unfolding no_io_def by blast
  obtain r1 w1 where bw: "before_config h w = (r1, w1)" by (cases "before_config h w")
  with eb have t1: "trace w1 = trace w @ eb" by simp
  show ?thesis
  proof (cases r1)
    case (Inl e)
    with bw have f: "full_installation h w = (Inl e, w1)"
      by (simp add: full_installation_parts bnd_def)
    show ?thesis
      unfolding f using t1 eb(2,3,4) by (intro exI [of _ eb]) simp
  next
    case (Inr u)
    from get_user_config_io [of w1] obtain eg where
      eg: "trace (snd (get_user_config w1)) = trace w1 @ eg" "writes_of eg = []"
          "prompts_of eg = take (length (prompts_of eg)) ?P"
          "length (inputs_of eg) \<le> 3"
          "\<forall>a b c. fst (get_user_config w1) = Inr (a, b, c) \<longrightarrow>
             length (inputs_of eg) = 3 \<and>
             a = or_py (inputs_of eg ! 0) ''8080'' \<and>
             b = or_py (inputs_of eg ! 1) ''1883'' \<and>
             c = or_py (inputs_of eg ! 2) ''5683''"
      by blast
    obtain r2 w2 where gw: "get_user_config w1 = (r2, w2)" by (cases "get_user_config w1")
    with eg t1 have t2: "trace w2 = trace w @ eb @ eg" by simp
    show ?thesis
    proof (cases r2)
      case (Inl e)
      with bw gw Inr have f: "full_installation h w = (Inl e, w2)"
        by (simp add: full_installation_parts bnd_def)
      show ?thesis
        unfolding f using t2 eb(2,3,4) eg(2,3,4)
        by (intro exI [of _ "eb @ eg"])
           (simp add: prompts_of_append inputs_of_append writes_of_append)
    next
      case inr: (Inr abc)
      obtain a b c where abc: "abc = (a, b, c)" by (cases abc)
      from eg(5) gw inr abc have
        v: "length (inputs_of eg) = 3" "a = or_py (inputs_of eg ! 0) ''8080''"
           "b = or_py (inputs_of eg ! 1) ''1883''" "c = or_py (inputs_of eg ! 2) ''5683''"
        by simp_all
      from bw gw Inr inr abc have f: "full_installation h w = after_config h a b c w2"
        by (simp add: full_installation_parts bnd_def)
      from after_config_io [of h a b c w2] obtain ea where
        ea: "trace (snd (after_config h a b c w2))
               = trace w2 @ Write compose_path (compose_file_content a b c) # ea"
            "prompts_of ea = []" "inputs_of ea = []" "writes_of ea = []"
        by blast
      have fl: "files (snd (after_config h a b c w2)) compose_path
                  = Some (compose_file_content a b c)"
        by (simp add: files_after_config)
      let ?es = "eb @ eg @ Write compose_path (compose_file_content a b c) # ea"
      have p: "prompts_of ?es = prompts_of eg" "inputs_of ?es = inputs_of eg"
          "writes_of ?es = [(compose_path, compose_file_content a b c)]"
        using eb(2,3,4) eg(2) ea(2,3,4)
        by (simp_all add: prompts_of_append inputs_of_append writes_of_append)
      have t: "trace (snd (full_installation h w)) = trace w @ ?es"
        unfolding f using ea(1) t2 by simp
      show ?thesis
      proof (intro exI [of _ ?es] conjI)
        show "trace (snd (full_installation h w)) = trace w @ ?es" by (rule t)
        show "prompts_of ?es = take (length (prompts_of ?es)) ?P"
          unfolding p using eg(3) .
        show "length (inputs_of ?es) \<le> 3" unfolding p using v(1) by simp
        show "writes_of ?es = [] \<or>
              length (inputs_of ?es) = 3 \<and>
              writes_of ?es = [(compose_path,
                 compose_file_content (or_py (inputs_of ?es ! 0) ''8080'')
                   (or_py (inputs_of ?es ! 1) ''1883'') (or_py (inputs_of ?es ! 2) ''5683''))]"
          unfolding p using v by simp
        show "fst (full_installation h w) = Inr () \<longrightarrow>
              length (inputs_of ?es) = 3 \<and>
              files (snd (full_installation h w)) compose_path =
                Some (compose_file_content (or_py (inputs_of ?es ! 0) ''8080'')
                  (or_py (inputs_of ?es ! 1) ''1883'') (or_py (inputs_of ?es ! 2) ''5683''))"
          unfolding p f using v fl by simp
      qed
    qed
  qed
qed

lemma full_installation_ok_run:
  "fst (full_installation host_ok (fresh_world ['''', '''', '''', tier])) = Inr () \<and>
   stdin (snd (full_installation host_ok (fresh_world ['''', '''', '''', tier]))) = [tier] \<and>
   files (snd (full_installation host_ok (fresh_world ['''', '''', '''', tier]))) compose_path
     = Some (compose_file_content ''8080'' ''1883'' ''5683'') \<and>
   inputs_of (new_events (full_installation host_ok) (fresh_world ['''', '''', '''', tier]))
     = ['''', '''', '''']"
  by (simp add: run_defs new_events_def host_ok_def fresh_world_def)

text \<open>
  Claim C1, as the script has it. \<open>configure_environment\<close> gives different limits for
  the tiers \<^verbatim>\<open>prod\<close> and \<^verbatim>\<open>dev\<close>, but two full installations whose input differs in the
  tier line only write the same descriptor, and the tier line is still unread at the end
  of the run: \<open>full_installation\<close> does not call \<open>configure_environment\<close>, and
  \<open>compose_file_content\<close> takes the three ports only.
\<close>

theorem tier_limits_counterexample:
  "projr (fst (configure_environment (fresh_world [''prod''])))  ''JAVA_OPTS''
     = Some ''-Xms512m -Xmx1024m'' \<and>
   projr (fst (configure_environment (fresh_world [''dev'']))) ''JAVA_OPTS''
     = Some ''-Xms256m -Xmx512m'' \<and>
   files (snd (full_installation host_ok (fresh_world ['''', '''', '''', ''prod'']))) compose_path
     = Some (compose_file_content ''8080'' ''1883'' ''5683'') \<and>
   files (snd (full_installation host_ok (fresh_world ['''', '''', '''', ''dev'']))) compose_path
     = Some (compose_file_content ''8080'' ''1883'' ''5683'') \<and>
   stdin (snd (full_installation host_ok (fresh_world ['''', '''', '''', ''prod'']))) = [''prod'']"
  using full_installation_ok_run [of "''prod''"] full_installation_ok_run [of "''dev''"]
  by (simp add: configure_environment_def input_py_def prog_defs Let_def env_is_prod
        fresh_world_def)

text \<open>
  Claim C1, amended. In a full installation the script asks for the three ports, in their
  order, and for nothing else: it never asks for the tier. It reads at most three lines
  with \<^verbatim>\<open>input\<close>. The only file it writes is the descriptor, rendered from the three
  lines it has read (with the defaults for empty ones) and from nothing else. When the
  run completes, the descriptor holds that text.
\<close>

theorem full_installation_reads_ports_only:
  "prompts_of (new_events (full_installation h) w)
     = take (length (prompts_of (new_events (full_installation h) w)))
        [''[PROMPT] Enter HTTP port for ThingsBoard (default: 8080): '',
         ''[PROMPT] Enter MQTT port (default: 1883): '',
         ''[PROMPT] Enter CoAP port (default: 5683): ''] \<and>
   ''[PROMPT] Choose environment [dev/prod] (default: dev): ''
     \<notin> set (prompts_of (new_events (full_installation h) w)) \<and>
   length (inputs_of (new_events (full_installation h) w)) \<le> 3 \<and>
   (writes_of (new_events (full_installation h) w) = [] \<or>
    length (inputs_of (new_events (full_installation h) w)) = 3 \<and>
    writes_of (new_events (full_installation h) w) = [(compose_path,
       compose_file_content
         (or_py (inputs_of (new_events (full_installation h) w) ! 0) ''8080'')
         (or_py (inputs_of (new_events (full_installation h) w) ! 1) ''1883'')
         (or_py (inputs_of (new_events (full_installation h) w) ! 2) ''5683''))]) \<and>
   (fst (full_installation h w) = Inr () \<longrightarrow>
      length (inputs_of (new_events (full_installation h) w)) = 3 \<and>
      files (snd (full_installation h w)) compose_path =
        Some (compose_file_content
          (or_py (inputs_of (new_events (full_installation h) w) ! 0) ''8080'')
          (or_py (inputs_of (new_events (full_installation h) w) ! 1) ''1883'')
          (or_py (inputs_of (new_events (full_installation h) w) ! 2) ''5683'')))"
proof -
  let ?P = "[''[PROMPT] Enter HTTP port for ThingsBoard (default: 8080): '',
             ''[PROMPT] Enter MQTT port (default: 1883): '',
             ''[PROMPT] Enter CoAP port (default: 5683): '']"
  from full_installation_io [of h w] obtain es where
    es: "trace (snd (full_installation h w)) = trace w @ es"
        "prompts_of es = take (length (prompts_of es)) ?P"
        "length (inputs_of es) \<le> 3"
        "writes_of es = [] \<or>
         length (inputs_of es) = 3 \<and>
         writes_of es = [(compose_path,
           compose_file_content (or_py (inputs_of es ! 0) ''8080'')
             (or_py (inputs_of es ! 1) ''1883'') (or_py (inputs_of es ! 2) ''5683''))]"
        "fst (full_installation h w) = Inr () \<longrightarrow>
          length (inputs_of es) = 3 \<and>
          files (snd (full_installation h w)) compose_path =
            Some (compose_file_content (or_py (inputs_of es ! 0) ''8080'')
                    (or_py (inputs_of es ! 1) ''1883'') (or_py (inputs_of es ! 2) ''5683''))"
    by blast
  have n: "new_events (full_installation h) w = es"
    using es(1) by (simp add: new_events_def)
  have "set (prompts_of es) \<subseteq> set ?P"
    using es(2) set_take_subset [of "length (prompts_of es)" ?P] by simp
  moreover have "''[PROMPT] Choose environment [dev/prod] (default: dev): '' \<notin> set ?P"
    by simp
  ultimately have t: "''[PROMPT] Choose environment [dev/prod] (default: dev): ''
      \<notin> set (prompts_of es)"
    by blast
  show ?thesis
    unfolding n using es(2,3,4,5) t by (intro conjI)
qed

theorem full_installation_reads_ports_only_witness:
  "fst (full_installation host_ok (fresh_world ['''', '''', '''', ''prod''])) = Inr () \<and>
   inputs_of (new_events (full_installation host_ok) (fresh_world ['''', '''', '''', ''prod'']))
     = ['''', '''', ''''] \<and>
   files (snd (full_installation host_ok (fresh_world ['''', '''', '''', ''prod'']))) compose_path
     = Some (compose_file_content ''8080'' ''1883'' ''5683'')"
  using full_installation_reads_ports_only [of host_ok "fresh_world ['''', '''', '''', ''prod'']"]
        full_installation_ok_run [of "''prod''"]
  by (simp add: or_py_def)

end
